theory Spec2Isabelle
  imports Complex_Main "HOL-Library.Sublist" "HOL-Library.Option_ord" "HOL-Library.Multiset"
    "HOL-Library.Char_ord" "HOL-Library.List_Lexorder" "HOL-Library.Product_Lexorder"
begin

section \<open>The store: tables, rows and the connection\<close>

text \<open>
  The store of \<^verbatim>\<open>src/db/database.py\<close> is a SQLite file with the tables created by
  \<^verbatim>\<open>Database.initialize\<close>. A table is the list of its rows in rowid order. The columns
  filled by \<^verbatim>\<open>CURRENT_TIMESTAMP\<close> (\<^verbatim>\<open>first_seen\<close>, \<^verbatim>\<open>last_updated\<close>, \<^verbatim>\<open>timestamp\<close>,
  \<^verbatim>\<open>added_date\<close>) are left out: no operation below reads them. A nullable column is an
  \<open>option\<close>, \<open>None\<close> being SQL \<^verbatim>\<open>NULL\<close>. Python \<^verbatim>\<open>int\<close> and SQLite \<^verbatim>\<open>INTEGER\<close> are \<open>int\<close>
  (values are taken to stay inside SQLite's 64-bit range), \<^verbatim>\<open>str\<close> and \<^verbatim>\<open>TEXT\<close> are
  \<open>string\<close> (ASCII text, one \<open>char\<close> per character).
\<close>

record paper =
  p_id :: int
  title :: string
  doi :: "string option"
  arxiv_id :: "string option"
  year :: "int option"
  venue :: "string option"
  authors :: "string option"
  abstract :: "string option"
  url :: "string option"

record citation =
  c_id :: int
  c_paper_id :: int
  platform :: string
  citation_count :: int
  h_index :: "int option"
  metadata :: "string option"

record tracked_paper =
  t_id :: int
  t_paper_id :: int
  alert_enabled :: bool

record sync_row =
  s_id :: int
  s_platform :: string
  last_sync :: "string option"
  status :: "string option"
  error_message :: "string option"

text \<open>
  Every table has \<^verbatim>\<open>id INTEGER PRIMARY KEY AUTOINCREMENT\<close>, so SQLite keeps for each table
  the largest rowid it ever handed out (table \<^verbatim>\<open>sqlite_sequence\<close>); the \<open>_seq\<close> fields hold
  it. \<open>last_insert_rowid\<close> belongs to the connection \<^verbatim>\<open>self.conn\<close>: the rowid of the most
  recent successful \<^verbatim>\<open>INSERT\<close> on that connection, into any table, and 0 on a connection
  that has inserted nothing yet. Python's \<^verbatim>\<open>cursor.lastrowid\<close> after \<^verbatim>\<open>conn.execute\<close>
  of an \<^verbatim>\<open>INSERT\<close> reads exactly this value, also when \<^verbatim>\<open>OR IGNORE\<close> skipped the row.
\<close>

record database =
  papers :: "paper list"
  papers_seq :: int
  citations :: "citation list"
  citations_seq :: int
  tracked_papers :: "tracked_paper list"
  tracked_papers_seq :: int
  sync_status :: "sync_row list"
  last_insert_rowid :: int

text \<open>\<^verbatim>\<open>Database.initialize\<close> on a new file, through a new connection: all tables empty.\<close>

definition initialize :: database where
  "initialize =
     \<lparr>papers = [], papers_seq = 0, citations = [], citations_seq = 0,
      tracked_papers = [], tracked_papers_seq = 0, sync_status = [],
      last_insert_rowid = 0\<rparr>"

text \<open>\<^verbatim>\<open>close\<close> followed by \<^verbatim>\<open>connect\<close>: the file is kept, the connection is new.\<close>

definition reconnect :: "database \<Rightarrow> database" where
  "reconnect s = s\<lparr>last_insert_rowid := 0\<rparr>"

text \<open>
  The rowid \<^verbatim>\<open>AUTOINCREMENT\<close> picks: one more than the largest rowid the table ever had.
  SQLite picks it before it checks the constraints, and records it in \<^verbatim>\<open>sqlite_sequence\<close>
  also when \<^verbatim>\<open>OR IGNORE\<close> then skips the row.
\<close>

definition new_rowid :: "int \<Rightarrow> int list \<Rightarrow> int" where
  "new_rowid seq ids = max seq (fold max ids 0) + 1"

text \<open>SQL \<^verbatim>\<open>column = ?\<close>: a comparison with \<^verbatim>\<open>NULL\<close> on either side is not true.\<close>

definition sql_eq :: "'a option \<Rightarrow> 'a option \<Rightarrow> bool" where
  "sql_eq a b = (case a of None \<Rightarrow> False | Some x \<Rightarrow> (case b of None \<Rightarrow> False | Some y \<Rightarrow> x = y))"

text \<open>
  \<^verbatim>\<open>UNIQUE(doi, arxiv_id)\<close> is one constraint on the pair. SQLite treats \<^verbatim>\<open>NULL\<close> as
  distinct from every value in a \<^verbatim>\<open>UNIQUE\<close> constraint, other \<^verbatim>\<open>NULL\<close>s included, so a new
  row conflicts only with a row that has the same DOI and the same arXiv ID, both present.
\<close>

definition unique_conflict :: "paper list \<Rightarrow> string option \<Rightarrow> string option \<Rightarrow> bool" where
  "unique_conflict ps d a = list_ex (\<lambda>p. sql_eq (doi p) d \<and> sql_eq (arxiv_id p) a) ps"

text \<open>
  The constraint comes with an index that holds, for every row, the key
  \<^verbatim>\<open>(doi, arxiv_id, rowid)\<close>, sorted with \<^verbatim>\<open>NULL\<close> before every text and texts compared
  byte by byte. It covers the columns \<^verbatim>\<open>id\<close>, \<^verbatim>\<open>doi\<close> and \<^verbatim>\<open>arxiv_id\<close>, and SQLite answers
  a query that reads only these from the index: \<^verbatim>\<open>WHERE doi = ?\<close> by a search in it,
  \<^verbatim>\<open>WHERE arxiv_id = ?\<close> and \<^verbatim>\<open>WHERE doi = ? OR arxiv_id = ?\<close> by a scan of it. The rows
  of such a query come in the order of the index, not in rowid order.
\<close>

definition index_order :: "paper list \<Rightarrow> paper list" where
  "index_order ps = sort_key (\<lambda>p. (doi p, arxiv_id p, p_id p)) ps"

text \<open>\<^verbatim>\<open>cursor.fetchone()\<close>: the first row of the result, \<^verbatim>\<open>None\<close> when there is none.\<close>

definition fetchone :: "'a list \<Rightarrow> 'a option" where
  "fetchone rows = (case rows of [] \<Rightarrow> None | r # _ \<Rightarrow> Some r)"

text \<open>
  \<^verbatim>\<open>Database.add_paper\<close>. \<open>dumps\<close> stands for \<^verbatim>\<open>json.dumps\<close> on a list of strings. The
  result is the returned identifier and the store afterwards.
\<close>

definition add_paper ::
  "(string list \<Rightarrow> string) \<Rightarrow> database \<Rightarrow> string \<Rightarrow> string option \<Rightarrow> string option \<Rightarrow>
   int option \<Rightarrow> string option \<Rightarrow> string list option \<Rightarrow> string option \<Rightarrow> string option \<Rightarrow>
   int option \<times> database" where
  "add_paper dumps s title' doi' arxiv_id' year' venue' authors' abstract' url' =
     (let authors_json =
            (case authors' of None \<Rightarrow> None
             | Some as \<Rightarrow> if as = [] then None else Some (dumps as));
          rid = new_rowid (papers_seq s) (map p_id (papers s));
          s1 = (if unique_conflict (papers s) doi' arxiv_id'
                then s\<lparr>papers_seq := rid\<rparr>
                else s\<lparr>papers := papers s @
                          [\<lparr>p_id = rid, title = title', doi = doi', arxiv_id = arxiv_id',
                            year = year', venue = venue', authors = authors_json,
                            abstract = abstract', url = url'\<rparr>],
                        papers_seq := rid, last_insert_rowid := rid\<rparr>);
          lastrowid = last_insert_rowid s1
      in if lastrowid = 0
         then (case fetchone (filter (\<lambda>p. sql_eq (doi p) doi' \<or> sql_eq (arxiv_id p) arxiv_id')
                                (index_order (papers s1))) of
                 None \<Rightarrow> (None, s1)
               | Some row \<Rightarrow> (Some (p_id row), s1))
         else (Some lastrowid, s1))"

text \<open>\<^verbatim>\<open>Database.get_paper_count\<close>: \<^verbatim>\<open>SELECT COUNT(*) FROM papers\<close>.\<close>

definition get_paper_count :: "database \<Rightarrow> int" where
  "get_paper_count s = int (length (papers s))"

text \<open>Python truthiness of an \<^verbatim>\<open>Optional[str]\<close>: neither \<^verbatim>\<open>None\<close> nor the empty string.\<close>

definition truthy :: "string option \<Rightarrow> bool" where
  "truthy x = (case x of None \<Rightarrow> False | Some v \<Rightarrow> v \<noteq> [])"

text \<open>
  SQLite's \<^verbatim>\<open>LIKE\<close> (no \<^verbatim>\<open>ESCAPE\<close>, default settings): in the pattern \<^verbatim>\<open>%\<close> matches any run
  of characters, \<^verbatim>\<open>_\<close> matches one character, and any other character matches itself
  with the ASCII letters compared without regard to case (\<open>ascii_lower\<close> gives the
  character code with \<^verbatim>\<open>A\<close> to \<^verbatim>\<open>Z\<close> mapped onto \<^verbatim>\<open>a\<close> to \<^verbatim>\<open>z\<close>).
\<close>

definition ascii_lower :: "char \<Rightarrow> nat" where
  "ascii_lower c =
     (let n = of_char c in if 65 \<le> n \<and> n \<le> 90 then n + 32 else n)"

fun like_match :: "string \<Rightarrow> string \<Rightarrow> bool" where
  "like_match [] t = (t = [])"
| "like_match (p # ps) [] = (p = CHR ''%'' \<and> like_match ps [])"
| "like_match (p # ps) (c # cs) =
     (if p = CHR ''%'' then like_match ps (c # cs) \<or> like_match (p # ps) cs
      else (p = CHR ''_'' \<or> ascii_lower p = ascii_lower c) \<and> like_match ps cs)"

text \<open>
  \<^verbatim>\<open>Database.add_tracked_paper\<close>. The \<^verbatim>\<open>if/elif\<close> chain picks one query by the first
  truthy argument. The queries by DOI and by arXiv ID read the index, the query by title
  scans the table in rowid order. \<^verbatim>\<open>tracked_papers\<close> has no constraint besides its primary
  key, so \<^verbatim>\<open>INSERT OR IGNORE\<close> has nothing to ignore and always inserts.
\<close>

definition find_paper ::
  "database \<Rightarrow> string option \<Rightarrow> string option \<Rightarrow> string option \<Rightarrow> int option" where
  "find_paper s doi' arxiv_id' title' =
     (if truthy doi'
      then map_option p_id
             (fetchone (filter (\<lambda>p. sql_eq (doi p) doi') (index_order (papers s))))
      else if truthy arxiv_id'
      then map_option p_id
             (fetchone (filter (\<lambda>p. sql_eq (arxiv_id p) arxiv_id') (index_order (papers s))))
      else (case title' of
              None \<Rightarrow> None
            | Some t \<Rightarrow>
                if t = [] then None
                else map_option p_id
                       (fetchone (filter (\<lambda>p. like_match (''%'' @ t @ ''%'') (title p))
                                    (papers s)))))"

definition add_tracked_paper ::
  "database \<Rightarrow> string option \<Rightarrow> string option \<Rightarrow> string option \<Rightarrow> int option \<times> database" where
  "add_tracked_paper s doi' arxiv_id' title' =
     (case find_paper s doi' arxiv_id' title' of
        None \<Rightarrow> (None, s)
      | Some paper_id \<Rightarrow>
          (let rid = new_rowid (tracked_papers_seq s) (map t_id (tracked_papers s))
           in (Some paper_id,
               s\<lparr>tracked_papers := tracked_papers s @
                    [\<lparr>t_id = rid, t_paper_id = paper_id, alert_enabled = True\<rparr>],
                 tracked_papers_seq := rid, last_insert_rowid := rid\<rparr>)))"


section \<open>The citation ledger\<close>

text \<open>
  \<^verbatim>\<open>Database.add_citation_record\<close>: appends one observation. \<open>dumps\<close> stands for
  \<^verbatim>\<open>json.dumps\<close> on the metadata dictionary, given by its items. The \<^verbatim>\<open>UPDATE\<close> of
  \<^verbatim>\<open>papers.last_updated\<close> touches a column that is left out.
\<close>

definition add_citation_record ::
  "((string \<times> 'v) list \<Rightarrow> string) \<Rightarrow> database \<Rightarrow> int \<Rightarrow> string \<Rightarrow> int \<Rightarrow> int option \<Rightarrow>
   (string \<times> 'v) list option \<Rightarrow> database" where
  "add_citation_record dumps s paper_id platform' citation_count' h_index' metadata' =
     (let metadata_json =
            (case metadata' of None \<Rightarrow> None
             | Some m \<Rightarrow> if m = [] then None else Some (dumps m));
          rid = new_rowid (citations_seq s) (map c_id (citations s))
      in s\<lparr>citations := citations s @
              [\<lparr>c_id = rid, c_paper_id = paper_id, platform = platform',
                citation_count = citation_count', h_index = h_index',
                metadata = metadata_json\<rparr>],
            citations_seq := rid, last_insert_rowid := rid\<rparr>)"

text \<open>
  The SQL aggregates: \<^verbatim>\<open>MAX\<close> and \<^verbatim>\<open>SUM\<close> skip \<^verbatim>\<open>NULL\<close>s and are \<^verbatim>\<open>NULL\<close> when nothing
  is left.
\<close>

definition sql_max :: "int option list \<Rightarrow> int option" where
  "sql_max vs = (case List.map_filter id vs of [] \<Rightarrow> None | x # xs \<Rightarrow> Some (fold max xs x))"

definition sql_sum :: "int option list \<Rightarrow> int option" where
  "sql_sum vs = (case List.map_filter id vs of [] \<Rightarrow> None | x # xs \<Rightarrow> Some (sum_list (x # xs)))"

text \<open>
  The inner query of \<^verbatim>\<open>get_total_citations\<close>:
  \<^verbatim>\<open>SELECT paper_id, MAX(citation_count) FROM citations [WHERE platform = ?] GROUP BY paper_id\<close>,
  one row for each distinct \<^verbatim>\<open>paper_id\<close>.
\<close>

definition latest :: "citation list \<Rightarrow> (int \<times> int option) list" where
  "latest rows =
     map (\<lambda>k. (k, sql_max (map (\<lambda>c. Some (citation_count c))
                               (filter (\<lambda>c. c_paper_id c = k) rows))))
         (remdups (map c_paper_id rows))"

text \<open>
  \<^verbatim>\<open>Database.get_total_citations\<close>. \<^verbatim>\<open>if platform:\<close> adds the \<^verbatim>\<open>WHERE\<close> clause for a
  platform that is neither \<^verbatim>\<open>None\<close> nor empty; the last line returns 0 for a \<^verbatim>\<open>NULL\<close>
  sum and for a sum of 0.
\<close>

definition get_total_citations :: "database \<Rightarrow> string option \<Rightarrow> int" where
  "get_total_citations s platform' =
     (let rows = (if truthy platform'
                  then filter (\<lambda>c. sql_eq (Some (platform c)) platform') (citations s)
                  else citations s);
          result = sql_sum (map snd (latest rows))
      in case result of None \<Rightarrow> 0 | Some total' \<Rightarrow> if total' \<noteq> 0 then total' else 0)"

text \<open>
  The aggregation as the specification words it: the sum, over the distinct papers with
  at least one observation, of each paper's maximum observed count.
\<close>

definition max_per_paper_then_sum :: "citation list \<Rightarrow> int" where
  "max_per_paper_then_sum rows =
     (\<Sum>k \<in> c_paper_id ` set rows. Max (citation_count ` {c \<in> set rows. c_paper_id c = k}))"

definition on_platform :: "string \<Rightarrow> citation list \<Rightarrow> citation list" where
  "on_platform pf rows = filter (\<lambda>c. platform c = pf) rows"

section \<open>Queries that join papers and observations\<close>

text \<open>
  A stable sort into descending order of a key: among rows with equal keys the earlier
  one stays first. It stands for Python's \<^verbatim>\<open>list.sort(key=..., reverse=True)\<close>, which is
  stable, and for \<^verbatim>\<open>ORDER BY ... DESC\<close>, where SQLite keeps rows with equal keys in the
  order in which the query produced them. SQLite sorts \<^verbatim>\<open>NULL\<close> below every value, as
  \<open>None\<close> is below every \<open>Some\<close> here.
\<close>

fun insort_desc :: "('a \<Rightarrow> 'k::linorder) \<Rightarrow> 'a \<Rightarrow> 'a list \<Rightarrow> 'a list" where
  "insort_desc f x [] = [x]"
| "insort_desc f x (y # ys) = (if f y \<le> f x then x # y # ys else y # insort_desc f x ys)"

definition sort_desc :: "('a \<Rightarrow> 'k::linorder) \<Rightarrow> 'a list \<Rightarrow> 'a list" where
  "sort_desc f xs = foldr (insort_desc f) xs []"

text \<open>
  \<^verbatim>\<open>... p LEFT JOIN citations c ON p.id = c.paper_id\<close> for one paper row: one joined row
  for each observation of the paper, and one with \<^verbatim>\<open>NULL\<close> in the citation columns when
  it has none.
\<close>

definition left_join_citations :: "database \<Rightarrow> paper \<Rightarrow> (paper \<times> int option) list" where
  "left_join_citations s p =
     (let cs = filter (\<lambda>c. p_id p = c_paper_id c) (citations s)
      in if cs = [] then [(p, None)] else map (\<lambda>c. (p, Some (citation_count c))) cs)"

text \<open>
  \<^verbatim>\<open>GROUP BY p.id\<close>: the joined rows with the same paper identifier form one group; the
  group keeps the paper columns of its first row and the citation counts of all of them.
\<close>

function group_by_id :: "(paper \<times> int option) list \<Rightarrow> (paper \<times> int option list) list" where
  "group_by_id [] = []"
| "group_by_id ((p, c) # rows) =
     (p, c # map snd (filter (\<lambda>r. p_id (fst r) = p_id p) rows)) #
     group_by_id (filter (\<lambda>r. p_id (fst r) \<noteq> p_id p) rows)"
  by pat_completeness auto
termination
  by (relation "measure length") (auto simp: less_Suc_eq_le)

text \<open>
  The \<^verbatim>\<open>FROM\<close> clause of \<^verbatim>\<open>get_tracked_papers\<close>:
  \<^verbatim>\<open>tracked_papers tp JOIN papers p ON tp.paper_id = p.id LEFT JOIN citations c ON ...\<close>.
  SQLite runs it with \<^verbatim>\<open>papers\<close> as the outer loop, so the joined rows, and with them
  the groups of \<^verbatim>\<open>GROUP BY p.id\<close>, come in the order of the paper rows.
\<close>

definition tracked_join :: "database \<Rightarrow> (paper \<times> int option) list" where
  "tracked_join s =
     concat (map (\<lambda>p. concat (map (\<lambda>tp. if t_paper_id tp = p_id p
                                          then left_join_citations s p else [])
                                    (tracked_papers s)))
                 (papers s))"

text \<open>
  \<^verbatim>\<open>Database.get_tracked_papers\<close>: each result row is the paper with the column
  \<^verbatim>\<open>citations = MAX(c.citation_count)\<close>, which is \<^verbatim>\<open>NULL\<close> (\<^verbatim>\<open>None\<close> in the returned
  dictionary) for a group without observations.
\<close>

definition get_tracked_papers :: "database \<Rightarrow> (paper \<times> int option) list" where
  "get_tracked_papers s =
     sort_desc snd (map (\<lambda>(p, cs). (p, sql_max cs)) (group_by_id (tracked_join s)))"

text \<open>
  \<^verbatim>\<open>Database.get_papers_with_latest_citations\<close>: the same over all papers, with
  \<^verbatim>\<open>COALESCE(MAX(c.citation_count), 0)\<close>.
\<close>

definition coalesce :: "int option \<Rightarrow> int \<Rightarrow> int" where
  "coalesce v d = (case v of None \<Rightarrow> d | Some x \<Rightarrow> x)"

definition get_papers_with_latest_citations :: "database \<Rightarrow> (paper \<times> int) list" where
  "get_papers_with_latest_citations s =
     sort_desc snd
       (map (\<lambda>(p, cs). (p, coalesce (sql_max cs) 0))
          (group_by_id (concat (map (left_join_citations s) (papers s)))))"


section \<open>The recommendation engine\<close>

text \<open>
  A recommendation dictionary of \<^verbatim>\<open>src/analytics/recommendations.py\<close> with its keys
  \<^verbatim>\<open>category\<close>, \<^verbatim>\<open>priority\<close>, \<^verbatim>\<open>title\<close> and \<^verbatim>\<open>data\<close>. The texts under \<^verbatim>\<open>description\<close>,
  \<^verbatim>\<open>impact\<close>, \<^verbatim>\<open>effort\<close> and \<^verbatim>\<open>action\<close> are left out: nothing branches on them.
\<close>

record low_vis_paper =
  lv_title :: string
  lv_citations :: int
  lv_age :: int

datatype rec_data =
    PaperData low_vis_paper
  | CountData nat
  | SoloCountData nat
  | PlatformsData "string list"
  | NoData

record recommendation =
  category :: string
  priority :: string
  rec_title :: string
  data :: rec_data

text \<open>\<^verbatim>\<open>PlatformConfig\<close> of \<^verbatim>\<open>src/core/config.py\<close>; \<^verbatim>\<open>Config.platforms\<close> is the list of the
  dictionary's items.\<close>

record platform_config =
  enabled :: bool
  api_key :: "string option"
  client_id :: "string option"
  client_secret :: "string option"
  author_id :: "string option"

text \<open>
  What \<^verbatim>\<open>json.loads\<close> can return, and Python's \<^verbatim>\<open>len\<close> on it: \<^verbatim>\<open>len\<close> of \<^verbatim>\<open>None\<close>, of a
  Boolean or of a number raises \<^verbatim>\<open>TypeError\<close> (\<open>None\<close> here). The parser itself is a
  parameter \<open>loads\<close> of the rules below, \<open>None\<close> when it raises.
\<close>

datatype json =
    JNull
  | JBool bool
  | JInt int
  | JFloat real
  | JStr string
  | JList "json list"
  | JDict "(string \<times> json) list"

fun py_len :: "json \<Rightarrow> nat option" where
  "py_len (JStr x) = Some (length x)"
| "py_len (JList xs) = Some (length xs)"
| "py_len (JDict kvs) = Some (length (remdups (map fst kvs)))"
| "py_len _ = None"

text \<open>
  \<^verbatim>\<open>_visibility_recommendations\<close>, as a function of the store its query reads.
  \<open>low_vis_papers\<close> is what \<^verbatim>\<open>self.metrics.identify_low_visibility_papers(threshold=5)\<close>
  returned.
\<close>

definition visibility_recommendations :: "low_vis_paper list \<Rightarrow> database \<Rightarrow> recommendation list" where
  "visibility_recommendations low_vis_papers s =
     (case low_vis_papers of
        [] \<Rightarrow> []
      | top_paper # _ \<Rightarrow>
          [\<lparr>category = ''visibility'', priority = ''high'',
            rec_title = ''Promote under-cited paper'', data = PaperData top_paper\<rparr>]) @
     (let papers' = get_papers_with_latest_citations s;
          no_doi = filter (\<lambda>p. \<not> truthy (doi (fst p))) papers'
      in if no_doi \<noteq> []
         then [\<lparr>category = ''visibility'', priority = ''medium'',
                rec_title = ''Add DOIs to papers'', data = CountData (length no_doi)\<rparr>]
         else [])"

text \<open>
  The loop of \<^verbatim>\<open>_collaboration_recommendations\<close> that collects \<^verbatim>\<open>solo_papers\<close>. A paper
  is skipped when its \<^verbatim>\<open>authors\<close> value is \<^verbatim>\<open>None\<close> or empty, and the bare \<^verbatim>\<open>except\<close>
  skips it when \<^verbatim>\<open>json.loads\<close> or \<^verbatim>\<open>len\<close> raises.
\<close>

fun solo_loop ::
  "(string \<Rightarrow> json option) \<Rightarrow> (paper \<times> int) list \<Rightarrow> (paper \<times> int) list \<Rightarrow> (paper \<times> int) list" where
  "solo_loop loads [] solo_papers = solo_papers"
| "solo_loop loads (paper # rest) solo_papers =
     solo_loop loads rest
       (case authors (fst paper) of
          None \<Rightarrow> solo_papers
        | Some a \<Rightarrow>
            if a = [] then solo_papers
            else (case loads a of
                    None \<Rightarrow> solo_papers
                  | Some authors' \<Rightarrow>
                      (case py_len authors' of
                         None \<Rightarrow> solo_papers
                       | Some n \<Rightarrow> if n \<le> 2 then solo_papers @ [paper] else solo_papers)))"

text \<open>
  \<^verbatim>\<open>_collaboration_recommendations\<close>. The test is
  \<^verbatim>\<open>len(solo_papers) > len(papers) * 0.3\<close> in double precision. The double nearest to 0.3
  is below 3/10 by a relative error smaller than half a unit in the last place, so for
  every count of papers a store can hold the product rounds to a double on the same
  side of every integer as the exact 3/10 of the count (and to that integer itself for
  a multiple of 10): the comparison has the outcome of the exact one, which is what is
  written here.
\<close>

definition collaboration_recommendations ::
  "(string \<Rightarrow> json option) \<Rightarrow> database \<Rightarrow> recommendation list" where
  "collaboration_recommendations loads s =
     (let papers' = get_papers_with_latest_citations s;
          solo_papers = solo_loop loads papers' []
      in if real (length solo_papers) > real (length papers') * 0.3
         then [\<lparr>category = ''collaboration'', priority = ''high'',
                rec_title = ''Increase collaboration'',
                data = SoloCountData (length solo_papers)\<rparr>]
         else [])"

text \<open>\<^verbatim>\<open>_trending_recommendations\<close>: one fixed entry.\<close>

definition trending_recommendations :: "recommendation list" where
  "trending_recommendations =
     [\<lparr>category = ''trending'', priority = ''medium'',
       rec_title = ''Align with current trends'', data = NoData\<rparr>]"

text \<open>
  The \<^verbatim>\<open>Database\<close> object the engine holds: its field \<^verbatim>\<open>conn\<close>, which \<^verbatim>\<open>__init__\<close> sets
  to \<^verbatim>\<open>None\<close> and \<^verbatim>\<open>connect\<close> fills, and the store behind its \<^verbatim>\<open>db_path\<close>. Every method
  of \<^verbatim>\<open>Database\<close> begins with \<^verbatim>\<open>self.connect()\<close>; the functions on \<open>database\<close> above are
  the method bodies after that call.
\<close>

record database_object =
  conn_is_open :: bool
  store :: database

definition connect :: "database_object \<Rightarrow> database_object" where
  "connect d = (if conn_is_open d then d else \<lparr>conn_is_open = True, store = reconnect (store d)\<rparr>)"

datatype py_error = AttributeError

text \<open>
  \<^verbatim>\<open>_profile_recommendations\<close>. It runs its query as \<^verbatim>\<open>self.db.conn.execute(...)\<close>
  without \<^verbatim>\<open>self.db.connect()\<close>: while \<^verbatim>\<open>conn\<close> is still \<^verbatim>\<open>None\<close> the attribute access
  raises \<^verbatim>\<open>AttributeError\<close>, after the list of inactive platforms has been computed and
  before anything is returned. \<^verbatim>\<open>oldest_sync\<close> is computed from the rows and never used;
  the keys it compares are strings (\<^verbatim>\<open>last_sync\<close> or the empty string), so computing it
  cannot fail.
\<close>

definition regular_updates :: recommendation where
  "regular_updates =
     \<lparr>category = ''profile'', priority = ''low'', rec_title = ''Regular updates'',
      data = NoData\<rparr>"

definition profile_recommendations ::
  "(string \<times> platform_config) list \<Rightarrow> database_object \<Rightarrow> py_error + recommendation list" where
  "profile_recommendations platforms d =
     (let inactive_platforms = map fst (filter (\<lambda>(name, config). \<not> enabled config) platforms);
          recommendations =
            (if inactive_platforms \<noteq> []
             then [\<lparr>category = ''profile'', priority = ''medium'',
                    rec_title = ''Activate more platforms'',
                    data = PlatformsData inactive_platforms\<rparr>]
             else [])
      in if \<not> conn_is_open d then Inl AttributeError
         else Inr (recommendations @
                   (if sync_status (store d) \<noteq> [] then [regular_updates] else [])))"

text \<open>\<^verbatim>\<open>_priority_score\<close>: \<^verbatim>\<open>priority_map.get(recommendation['priority'], 0.0)\<close>.\<close>

definition priority_score :: "recommendation \<Rightarrow> real" where
  "priority_score r =
     (if priority r = ''high'' then 3
      else if priority r = ''medium'' then 2
      else if priority r = ''low'' then 1
      else 0)"

text \<open>
  Python's slice \<^verbatim>\<open>xs[:limit]\<close>: the first \<open>limit\<close> elements, and for a negative \<open>limit\<close>
  all but the last \<open>-limit\<close> elements.
\<close>

definition py_slice_to :: "int \<Rightarrow> 'a list \<Rightarrow> 'a list" where
  "py_slice_to limit xs =
     (if 0 \<le> limit then take (nat limit) xs else take (length xs - nat (- limit)) xs)"

text \<open>
  The list \<^verbatim>\<open>generate_recommendations\<close> builds before it sorts: the rule groups in the
  order of the source, each one run when \<^verbatim>\<open>category\<close> is \<^verbatim>\<open>None\<close>, empty, or its name.
  The visibility and the collaboration group call
  \<^verbatim>\<open>self.db.get_papers_with_latest_citations()\<close>, which opens the connection if it is not
  open; the trending group does not touch the object; the profile group needs the
  connection open. The result is the list, or the error that ended the call, and the
  object as the call leaves it.
\<close>

definition emitted ::
  "(string \<Rightarrow> json option) \<Rightarrow> (string \<times> platform_config) list \<Rightarrow> low_vis_paper list \<Rightarrow>
   database_object \<Rightarrow> string option \<Rightarrow> (py_error + recommendation list) \<times> database_object" where
  "emitted loads platforms low_vis_papers d category' =
     (let visibility = (\<not> truthy category' \<or> category' = Some ''visibility'');
          d1 = (if visibility then connect d else d);
          r1 = (if visibility then visibility_recommendations low_vis_papers (store d1) else []);
          collaboration = (\<not> truthy category' \<or> category' = Some ''collaboration'');
          d2 = (if collaboration then connect d1 else d1);
          r2 = (if collaboration then collaboration_recommendations loads (store d2) else []);
          r3 = (if \<not> truthy category' \<or> category' = Some ''trending''
                then trending_recommendations else [])
      in if \<not> truthy category' \<or> category' = Some ''profile''
         then (case profile_recommendations platforms d2 of
                 Inl e \<Rightarrow> (Inl e, d2)
               | Inr r4 \<Rightarrow> (Inr (r1 @ r2 @ r3 @ r4), d2))
         else (Inr (r1 @ r2 @ r3), d2))"

definition generate_recommendations ::
  "(string \<Rightarrow> json option) \<Rightarrow> (string \<times> platform_config) list \<Rightarrow> low_vis_paper list \<Rightarrow>
   database_object \<Rightarrow> int \<Rightarrow> string option \<Rightarrow> (py_error + recommendation list) \<times> database_object" where
  "generate_recommendations loads platforms low_vis_papers d limit category' =
     (case emitted loads platforms low_vis_papers d category' of
        (Inl e, d') \<Rightarrow> (Inl e, d')
      | (Inr recommendations, d') \<Rightarrow>
          (Inr (py_slice_to limit (sort_desc priority_score recommendations)), d'))"

text \<open>
  The collaboration rule as the specification words it: a paper counts as solo when its
  \<^verbatim>\<open>authors\<close> text is present, parses, and the parsed value has length at most 2.
\<close>

definition is_solo :: "(string \<Rightarrow> json option) \<Rightarrow> paper \<Rightarrow> bool" where
  "is_solo loads p =
     (case authors p of
        None \<Rightarrow> False
      | Some a \<Rightarrow>
          a \<noteq> [] \<and>
          (case loads a of
             None \<Rightarrow> False
           | Some v \<Rightarrow> (case py_len v of None \<Rightarrow> False | Some n \<Rightarrow> n \<le> 2)))"

section \<open>The h-index\<close>

text \<open>
  Modelled from the spec: \<^verbatim>\<open>MetricsCalculator.calculate_h_index\<close>, of
  \<^verbatim>\<open>src/analytics/metrics.py\<close>, which is not among the sources; only its call in
  \<^verbatim>\<open>get_actionable_insights\<close> is. The specification gives the algorithm: sort the counts
  descending, scan to find the largest index+1 where count \<open>\<ge>\<close> index+1, 0 when there is
  none.
\<close>

fun h_scan :: "int list \<Rightarrow> nat \<Rightarrow> nat \<Rightarrow> nat" where
  "h_scan [] i h = h"
| "h_scan (c # cs) i h = h_scan cs (i + 1) (if int (i + 1) \<le> c then i + 1 else h)"

definition calculate_h_index :: "int list \<Rightarrow> nat" where
  "calculate_h_index citation_counts = h_scan (sort_desc id citation_counts) 0 0"

text \<open>
  The standard definition: \<open>h\<close> is admissible when at least \<open>h\<close> papers have at least \<open>h\<close>
  citations each.
\<close>

definition at_least_h :: "int list \<Rightarrow> nat \<Rightarrow> bool" where
  "at_least_h cs h = (h \<le> length (filter (\<lambda>c. int h \<le> c) cs))"


section \<open>Example stores\<close>

text \<open>
  \<^verbatim>\<open>json.dumps\<close> on a list of strings in which no character needs escaping, used to run
  the operations on concrete arguments.
\<close>

fun join_comma :: "string list \<Rightarrow> string" where
  "join_comma [] = []"
| "join_comma [x] = x"
| "join_comma (x # y # zs) = x @ '', '' @ join_comma (y # zs)"

definition dumps_plain :: "string list \<Rightarrow> string" where
  "dumps_plain as = ''['' @ join_comma (map (\<lambda>a. [CHR 0x22] @ a @ [CHR 0x22]) as) @ '']''"

text \<open>The same paper, identified by its DOI alone, added twice to a new store.\<close>

definition first_insert :: "int option \<times> database" where
  "first_insert =
     add_paper dumps_plain initialize ''T'' (Some ''10.1000/x'') None None None None None None"

definition second_insert :: "int option \<times> database" where
  "second_insert =
     add_paper dumps_plain (snd first_insert) ''T'' (Some ''10.1000/x'') None None None None
       None None"

text \<open>That paper, tracked twice by its DOI.\<close>

definition tracked_once :: "int option \<times> database" where
  "tracked_once = add_tracked_paper (snd first_insert) (Some ''10.1000/x'') None None"

definition tracked_twice :: "int option \<times> database" where
  "tracked_twice = add_tracked_paper (snd tracked_once) (Some ''10.1000/x'') None None"

text \<open>A paper without DOI and arXiv ID, added twice under the same title.\<close>

definition untitled_first :: "int option \<times> database" where
  "untitled_first =
     add_paper dumps_plain initialize ''Notes'' None None None None None None None"

definition untitled_second :: "int option \<times> database" where
  "untitled_second =
     add_paper dumps_plain (snd untitled_first) ''Notes'' None None None None None None None"

text \<open>
  Substring match that ignores the case of ASCII letters: the needle occurs in the text
  as a contiguous run, up to \<open>ascii_lower\<close>.
\<close>

definition title_contains :: "string \<Rightarrow> string \<Rightarrow> bool" where
  "title_contains needle x = sublist (map ascii_lower needle) (map ascii_lower x)"

text \<open>A store with two papers, each with DOI, arXiv ID and title.\<close>

definition two_papers :: database where
  "two_papers =
     snd (add_paper dumps_plain
            (snd (add_paper dumps_plain initialize ''Deep Learning'' (Some ''10.1000/dl'')
                    (Some ''1501.00001'') None None None None None))
            ''Shallow Parsing'' (Some ''10.1000/sp'') (Some ''1502.00002'') None None None
            None None)"

text \<open>
  The ledger of the specification's example: paper 1 observed on platform \<^verbatim>\<open>X\<close> with 10
  and then 15 citations, paper 2 on platform \<^verbatim>\<open>Y\<close> with 3. No metadata is passed, so
  \<^verbatim>\<open>json.dumps\<close> is never called.
\<close>

definition dumps_unused :: "(string \<times> string) list \<Rightarrow> string" where
  "dumps_unused m = []"

definition three_observations :: database where
  "three_observations =
     add_citation_record dumps_unused
       (add_citation_record dumps_unused
          (add_citation_record dumps_unused initialize 1 ''X'' 10 None None)
          1 ''X'' 15 None None)
       2 ''Y'' 3 None None"

text \<open>
  The two papers, both tracked, with one observation of 7 citations for paper 1 and
  none for paper 2.
\<close>

definition tracked_example :: database where
  "tracked_example =
     add_citation_record dumps_unused
       (snd (add_tracked_paper
               (snd (add_tracked_paper two_papers (Some ''10.1000/dl'') None None))
               (Some ''10.1000/sp'') None None))
       1 ''X'' 7 None None"

text \<open>
  Three papers without DOI: one with a single author, one with three authors, one
  without an author list. \<open>loads_example\<close> is \<^verbatim>\<open>json.loads\<close> on the two author texts
  stored there and raises on every other text.
\<close>

definition three_papers :: database where
  "three_papers =
     snd (add_paper dumps_plain
       (snd (add_paper dumps_plain
          (snd (add_paper dumps_plain initialize ''Alone'' None None None None
                  (Some [''A'']) None None))
          ''Team'' None None None None (Some [''A'', ''B'', ''C'']) None None))
       ''Anonymous'' None None None None None None None)"

definition loads_example :: "string \<Rightarrow> json option" where
  "loads_example x =
     (if x = dumps_plain [''A''] then Some (JList [JStr ''A''])
      else if x = dumps_plain [''A'', ''B'', ''C'']
      then Some (JList [JStr ''A'', JStr ''B'', JStr ''C''])
      else None)"

text \<open>A configuration with one disabled platform.\<close>

definition scopus_off :: "(string \<times> platform_config) list" where
  "scopus_off =
     [(''scopus'', \<lparr>enabled = False, api_key = None, client_id = None, client_secret = None,
                    author_id = None\<rparr>)]"

text \<open>
  Three papers of which two share a DOI and two share an arXiv ID, added in an order
  that is not the order of the index.
\<close>

definition shared_keys :: database where
  "shared_keys =
     snd (add_paper dumps_plain
       (snd (add_paper dumps_plain
          (snd (add_paper dumps_plain initialize ''First'' (Some ''10.1000/d'')
                  (Some ''2401.00002'') None None None None None))
          ''Second'' (Some ''10.1000/d'') (Some ''2401.00001'') None None None None None))
       ''Third'' (Some ''10.1000/c'') (Some ''2401.00002'') None None None None None)"

text \<open>
  A store without papers in which one fetch has been recorded for a platform, and the
  \<^verbatim>\<open>Database\<close> object as \<^verbatim>\<open>Database(path)\<close> constructs it: \<^verbatim>\<open>conn\<close> is \<^verbatim>\<open>None\<close>.
\<close>

definition synced_store :: database where
  "synced_store =
     initialize\<lparr>sync_status :=
       [\<lparr>s_id = 1, s_platform = ''orcid'', last_sync = Some ''2024-05-01 10:00:00'',
         status = Some ''success'', error_message = None\<rparr>]\<rparr>"

definition new_object :: "database \<Rightarrow> database_object" where
  "new_object s = \<lparr>conn_is_open = False, store = s\<rparr>"

section \<open>Row identifiers\<close>

lemma fold_max_nonneg: "0 \<le> b \<Longrightarrow> 0 \<le> fold max ids (b::int)"
  by (induction ids arbitrary: b) auto

lemma fold_max_ge: "x \<in> set ids \<Longrightarrow> x \<le> fold max ids (b::int)"
  by (metis List.finite_set Max.set_eq_fold Max_ge list.set_intros(2))

lemma new_rowid_pos: "0 < new_rowid seq ids"
  using fold_max_nonneg[of 0 ids] by (simp add: new_rowid_def)

lemma new_rowid_fresh: "new_rowid seq ids \<notin> set ids"
  using fold_max_ge[of "new_rowid seq ids" ids 0] by (auto simp: new_rowid_def)

lemma unique_conflict_None: "unique_conflict ps None a = False"
  by (simp add: unique_conflict_def sql_eq_def list_ex_iff split: option.splits)

section \<open>Adding papers\<close>

text \<open>
  Claim C1. A paper added twice with the same DOI should get the same identifier both
  times and leave the paper count unchanged. The code does not do this when the arXiv ID
  is absent: the \<^verbatim>\<open>UNIQUE(doi, arxiv_id)\<close> constraint never fires on a \<^verbatim>\<open>NULL\<close> arXiv ID,
  so the second \<^verbatim>\<open>INSERT OR IGNORE\<close> inserts a second row. On a new store the two calls
  return 1 and 2 and the count goes from 1 to 2.
\<close>

theorem add_paper_same_doi_twice_duplicates:
  "fst first_insert = Some 1 \<and> fst second_insert = Some 2 \<and>
   get_paper_count (snd first_insert) = 1 \<and> get_paper_count (snd second_insert) = 2 \<and>
   map doi (papers (snd second_insert)) = [Some ''10.1000/x'', Some ''10.1000/x'']"
  by (simp add: first_insert_def second_insert_def add_paper_def initialize_def new_rowid_def
      unique_conflict_def sql_eq_def get_paper_count_def Let_def)

text \<open>
  Claim C4, as the specification states it, fails: adding a paper without DOI and arXiv
  ID under a title that is already stored is not a no-op. After the second call the
  store holds two rows with that title.
\<close>

theorem add_paper_same_title_not_noop:
  "map title (papers (snd untitled_first)) = [''Notes''] \<and>
   map title (papers (snd untitled_second)) = [''Notes'', ''Notes''] \<and>
   fst untitled_second = Some 2"
  by (simp add: untitled_first_def untitled_second_def add_paper_def initialize_def
      new_rowid_def unique_conflict_def sql_eq_def Let_def)

text \<open>
  Claim C4, amended. When neither a DOI nor an arXiv ID is supplied, \<^verbatim>\<open>add_paper\<close>
  always inserts: the paper count grows by one, the new row carries the given title
  after the rows already there, and the call returns the new row's identifier, which no
  earlier row has. Titles are never compared, so this holds whether or not the title is
  already stored.
\<close>

theorem add_paper_without_identifiers_inserts:
  "get_paper_count (snd (add_paper dumps s t None None y v a ab u)) = get_paper_count s + 1 \<and>
   map title (papers (snd (add_paper dumps s t None None y v a ab u))) =
     map title (papers s) @ [t] \<and>
   fst (add_paper dumps s t None None y v a ab u) =
     Some (new_rowid (papers_seq s) (map p_id (papers s))) \<and>
   new_rowid (papers_seq s) (map p_id (papers s)) \<notin> p_id ` set (papers s)"
  using new_rowid_pos[of "papers_seq s" "map p_id (papers s)"]
    new_rowid_fresh[of "papers_seq s" "map p_id (papers s)"]
  by (simp add: add_paper_def Let_def unique_conflict_None get_paper_count_def)

section \<open>Tracking papers\<close>

text \<open>
  Claim C3. Tracking should be idempotent, with at most one \<^verbatim>\<open>tracked_papers\<close> row for a
  paper. The code inserts with \<^verbatim>\<open>INSERT OR IGNORE\<close>, but the table has no \<^verbatim>\<open>UNIQUE\<close>
  constraint on \<^verbatim>\<open>paper_id\<close>, so nothing is ever ignored: tracking paper 1 twice leaves
  two rows for it.
\<close>

theorem add_tracked_paper_twice_duplicates:
  "fst tracked_once = Some 1 \<and> fst tracked_twice = Some 1 \<and>
   map t_paper_id (tracked_papers (snd tracked_once)) = [1] \<and>
   map t_paper_id (tracked_papers (snd tracked_twice)) = [1, 1]"
  by (simp add: tracked_once_def tracked_twice_def add_tracked_paper_def find_paper_def
      first_insert_def add_paper_def initialize_def new_rowid_def unique_conflict_def
      sql_eq_def truthy_def fetchone_def index_order_def Let_def)

section \<open>The lookup of \<^verbatim>\<open>add_tracked_paper\<close>\<close>

lemma fetchone_filter: "fetchone (filter P xs) = List.find P xs"
  by (induction xs) (auto simp: fetchone_def)

lemma like_percent:
  "like_match (CHR ''%'' # ps) x = (\<exists>x1 x2. x = x1 @ x2 \<and> like_match ps x2)"
proof (induction x)
  case Nil
  then show ?case by simp
next
  case (Cons c cs)
  have "like_match (CHR ''%'' # ps) (c # cs) =
        (like_match ps (c # cs) \<or> like_match (CHR ''%'' # ps) cs)"
    by simp
  also have "\<dots> = (like_match ps (c # cs) \<or> (\<exists>x1 x2. cs = x1 @ x2 \<and> like_match ps x2))"
    using Cons.IH by simp
  also have "\<dots> = (\<exists>x1 x2. c # cs = x1 @ x2 \<and> like_match ps x2)"
    by (auto simp: Cons_eq_append_conv)
  finally show ?case .
qed

lemma like_literal:
  "CHR ''%'' \<notin> set t \<Longrightarrow> CHR ''_'' \<notin> set t \<Longrightarrow>
   like_match (t @ ps) x =
     (\<exists>x1 x2. x = x1 @ x2 \<and> map ascii_lower x1 = map ascii_lower t \<and> like_match ps x2)"
proof (induction t arbitrary: x)
  case Nil
  then show ?case by simp
next
  case (Cons p t)
  show ?case
  proof (cases x)
    case Nil
    then show ?thesis using Cons.prems by auto
  next
    case (Cons c cs)
    have "like_match ((p # t) @ ps) (c # cs) =
          (ascii_lower p = ascii_lower c \<and> like_match (t @ ps) cs)"
      using Cons.prems by auto
    also have "\<dots> = (ascii_lower p = ascii_lower c \<and>
        (\<exists>x1 x2. cs = x1 @ x2 \<and> map ascii_lower x1 = map ascii_lower t \<and> like_match ps x2))"
      using Cons.IH[of cs] Cons.prems by simp
    also have "\<dots> = (\<exists>x1 x2. c # cs = x1 @ x2 \<and>
        map ascii_lower x1 = map ascii_lower (p # t) \<and> like_match ps x2)"
    proof
      assume "ascii_lower p = ascii_lower c \<and>
        (\<exists>x1 x2. cs = x1 @ x2 \<and> map ascii_lower x1 = map ascii_lower t \<and> like_match ps x2)"
      then obtain x1 x2 where "ascii_lower p = ascii_lower c" "cs = x1 @ x2"
        "map ascii_lower x1 = map ascii_lower t" "like_match ps x2" by blast
      then have "c # cs = (c # x1) @ x2 \<and>
        map ascii_lower (c # x1) = map ascii_lower (p # t) \<and> like_match ps x2" by simp
      then show "\<exists>x1 x2. c # cs = x1 @ x2 \<and>
        map ascii_lower x1 = map ascii_lower (p # t) \<and> like_match ps x2" by blast
    next
      assume "\<exists>x1 x2. c # cs = x1 @ x2 \<and>
        map ascii_lower x1 = map ascii_lower (p # t) \<and> like_match ps x2"
      then obtain x1 x2 where *: "c # cs = x1 @ x2"
        "map ascii_lower x1 = map ascii_lower (p # t)" "like_match ps x2" by blast
      from *(2) obtain d x1' where "x1 = d # x1'" by (cases x1) auto
      with * show "ascii_lower p = ascii_lower c \<and>
        (\<exists>x1 x2. cs = x1 @ x2 \<and> map ascii_lower x1 = map ascii_lower t \<and> like_match ps x2)"
        by auto
    qed
    finally show ?thesis using Cons by simp
  qed
qed

lemma like_substring:
  assumes "CHR ''%'' \<notin> set n" "CHR ''_'' \<notin> set n"
  shows "like_match (''%'' @ n @ ''%'') x = title_contains n x"
proof -
  have "like_match (''%'' @ n @ ''%'') x =
        (\<exists>x1 x2. x = x1 @ x2 \<and> like_match (n @ ''%'') x2)"
    using like_percent[of "n @ ''%''" x] by simp
  also have "\<dots> = (\<exists>x1 y1 y2. x = x1 @ y1 @ y2 \<and> map ascii_lower y1 = map ascii_lower n)"
    using like_literal[OF assms, of "''%''"] like_percent[of "[]"] by auto
  also have "\<dots> = title_contains n x"
    unfolding title_contains_def sublist_def
    by (auto simp: map_eq_append_conv append_eq_map_conv) metis+
  finally show ?thesis .
qed

lemma set_index_order: "set (index_order ps) = set ps"
  by (simp add: index_order_def)

lemma find_paper_cases:
  "find_paper s d a t =
     (if truthy d
      then map_option p_id (List.find (\<lambda>p. doi p = d) (index_order (papers s)))
      else if truthy a
      then map_option p_id (List.find (\<lambda>p. arxiv_id p = a) (index_order (papers s)))
      else (case t of
              None \<Rightarrow> None
            | Some n \<Rightarrow>
                if n = [] then None
                else map_option p_id
                       (List.find (\<lambda>p. like_match (''%'' @ n @ ''%'') (title p)) (papers s))))"
proof -
  have 1: "truthy d \<Longrightarrow> (\<lambda>p. sql_eq (doi p) d) = (\<lambda>p. doi p = d)" for d
    by (auto simp: truthy_def sql_eq_def fun_eq_iff split: option.splits)
  have 2: "truthy a \<Longrightarrow> (\<lambda>p. sql_eq (arxiv_id p) a) = (\<lambda>p. arxiv_id p = a)" for a
    by (auto simp: truthy_def sql_eq_def fun_eq_iff split: option.splits)
  show ?thesis
    by (simp add: find_paper_def fetchone_filter 1 2 split: option.splits)
qed

lemma find_in_index_order:
  "(map_option p_id (List.find P (index_order ps)) = None) = (\<forall>p \<in> set ps. \<not> P p)"
  "map_option p_id (List.find P (index_order ps)) = Some i \<Longrightarrow>
     \<exists>p \<in> set ps. p_id p = i \<and> P p"
proof -
  show "(map_option p_id (List.find P (index_order ps)) = None) = (\<forall>p \<in> set ps. \<not> P p)"
    by (auto simp: find_None_iff set_index_order)
next
  assume "map_option p_id (List.find P (index_order ps)) = Some i"
  then obtain p where p: "List.find P (index_order ps) = Some p" "p_id p = i" by auto
  from p(1) have "P p \<and> p \<in> set (index_order ps)"
    by (auto simp: find_Some_iff)
  with p(2) show "\<exists>p \<in> set ps. p_id p = i \<and> P p"
    by (auto simp: set_index_order)
qed

lemma add_tracked_paper_fst: "fst (add_tracked_paper s d a t) = find_paper s d a t"
  by (simp add: add_tracked_paper_def Let_def split: option.splits)

lemma add_tracked_paper_none:
  "find_paper s d a t = None \<Longrightarrow> add_tracked_paper s d a t = (None, s)"
  by (simp add: add_tracked_paper_def)

text \<open>
  Claim C8, as the specification states it, fails on the case-sensitivity of the title
  match: the store holds the titles \<^verbatim>\<open>Deep Learning\<close> and \<^verbatim>\<open>Shallow Parsing\<close>, the text
  \<^verbatim>\<open>deep\<close> is no substring of either, and the lookup by title \<^verbatim>\<open>deep\<close> still resolves to
  paper 1.
\<close>

theorem title_lookup_ignores_case:
  "map title (papers two_papers) = [''Deep Learning'', ''Shallow Parsing''] \<and>
   \<not> sublist ''deep'' ''Deep Learning'' \<and> \<not> sublist ''deep'' ''Shallow Parsing'' \<and>
   fst (add_tracked_paper two_papers None None (Some ''deep'')) = Some 1"
  by (simp add: two_papers_def add_tracked_paper_def find_paper_def add_paper_def
      initialize_def new_rowid_def unique_conflict_def sql_eq_def truthy_def fetchone_def
      Let_def ascii_lower_def sublist_code)

text \<open>
  Claim C8, amended. The lookup of \<^verbatim>\<open>add_tracked_paper\<close> uses the first argument that is
  neither \<^verbatim>\<open>None\<close> nor empty, in the order DOI, arXiv ID, title, and only that one. By
  DOI or by arXiv ID it returns \<^verbatim>\<open>None\<close> exactly when no paper has that value, and else
  the id of a paper that has it: of several such papers the one that comes first in the
  index on \<^verbatim>\<open>(doi, arxiv_id)\<close>. By title it returns the first paper, in rowid order,
  whose title matches the SQL pattern \<^verbatim>\<open>%title%\<close>; for a title argument free of \<^verbatim>\<open>%\<close>
  and \<^verbatim>\<open>_\<close> the pattern matches exactly the titles that contain the argument up to the
  case of ASCII letters. With no usable argument, or when no paper matches, the call
  returns \<^verbatim>\<open>None\<close> and leaves the store as it was.
\<close>

theorem tracked_lookup_precedence:
  "(truthy d \<longrightarrow>
      fst (add_tracked_paper s d a t) =
        map_option p_id (List.find (\<lambda>p. doi p = d) (index_order (papers s))) \<and>
      (fst (add_tracked_paper s d a t) = None) = (\<forall>p \<in> set (papers s). doi p \<noteq> d) \<and>
      (fst (add_tracked_paper s d a t) = Some i \<longrightarrow>
         (\<exists>p \<in> set (papers s). p_id p = i \<and> doi p = d))) \<and>
   (\<not> truthy d \<and> truthy a \<longrightarrow>
      fst (add_tracked_paper s d a t) =
        map_option p_id (List.find (\<lambda>p. arxiv_id p = a) (index_order (papers s))) \<and>
      (fst (add_tracked_paper s d a t) = None) = (\<forall>p \<in> set (papers s). arxiv_id p \<noteq> a) \<and>
      (fst (add_tracked_paper s d a t) = Some i \<longrightarrow>
         (\<exists>p \<in> set (papers s). p_id p = i \<and> arxiv_id p = a))) \<and>
   (\<not> truthy d \<and> \<not> truthy a \<and> n \<noteq> [] \<longrightarrow>
      fst (add_tracked_paper s d a (Some n)) =
        map_option p_id (List.find (\<lambda>p. like_match (''%'' @ n @ ''%'') (title p)) (papers s))) \<and>
   (CHR ''%'' \<notin> set n \<and> CHR ''_'' \<notin> set n \<longrightarrow>
      like_match (''%'' @ n @ ''%'') x = title_contains n x) \<and>
   (\<not> truthy d \<and> \<not> truthy a \<and> \<not> truthy t \<longrightarrow> add_tracked_paper s d a t = (None, s)) \<and>
   (fst (add_tracked_paper s d a t) = None \<longrightarrow> snd (add_tracked_paper s d a t) = s)"
proof -
  have 0: "\<not> truthy d \<and> \<not> truthy a \<and> \<not> truthy t \<longrightarrow> find_paper s d a t = None"
    by (auto simp: find_paper_cases truthy_def split: option.splits)
  have 7: "find_paper s d a t = None \<longrightarrow> add_tracked_paper s d a t = (None, s)"
    using add_tracked_paper_none[of s d a t] by blast
  have c1: "truthy d \<longrightarrow>
      fst (add_tracked_paper s d a t) =
        map_option p_id (List.find (\<lambda>p. doi p = d) (index_order (papers s))) \<and>
      (fst (add_tracked_paper s d a t) = None) = (\<forall>p \<in> set (papers s). doi p \<noteq> d) \<and>
      (fst (add_tracked_paper s d a t) = Some i \<longrightarrow>
         (\<exists>p \<in> set (papers s). p_id p = i \<and> doi p = d))"
    unfolding add_tracked_paper_fst
    using find_in_index_order(1)[of "\<lambda>p. doi p = d" "papers s"]
      find_in_index_order(2)[of "\<lambda>p. doi p = d" "papers s" i]
    by (simp add: find_paper_cases)
  have c2: "\<not> truthy d \<and> truthy a \<longrightarrow>
      fst (add_tracked_paper s d a t) =
        map_option p_id (List.find (\<lambda>p. arxiv_id p = a) (index_order (papers s))) \<and>
      (fst (add_tracked_paper s d a t) = None) = (\<forall>p \<in> set (papers s). arxiv_id p \<noteq> a) \<and>
      (fst (add_tracked_paper s d a t) = Some i \<longrightarrow>
         (\<exists>p \<in> set (papers s). p_id p = i \<and> arxiv_id p = a))"
    unfolding add_tracked_paper_fst
    using find_in_index_order(1)[of "\<lambda>p. arxiv_id p = a" "papers s"]
      find_in_index_order(2)[of "\<lambda>p. arxiv_id p = a" "papers s" i]
    by (simp add: find_paper_cases)
  have c3: "\<not> truthy d \<and> \<not> truthy a \<and> n \<noteq> [] \<longrightarrow>
      fst (add_tracked_paper s d a (Some n)) =
        map_option p_id (List.find (\<lambda>p. like_match (''%'' @ n @ ''%'') (title p)) (papers s))"
    by (simp add: add_tracked_paper_fst find_paper_cases)
  have c4: "CHR ''%'' \<notin> set n \<and> CHR ''_'' \<notin> set n \<longrightarrow>
      like_match (''%'' @ n @ ''%'') x = title_contains n x"
    using like_substring[of n x] by blast
  have c5: "\<not> truthy d \<and> \<not> truthy a \<and> \<not> truthy t \<longrightarrow> add_tracked_paper s d a t = (None, s)"
    using 0 7 by blast
  have c6: "fst (add_tracked_paper s d a t) = None \<longrightarrow> snd (add_tracked_paper s d a t) = s"
    using 7 by (simp add: add_tracked_paper_fst)
  show ?thesis
    using c1 c2 c3 c4 c5 c6 by (intro conjI)
qed

lemma shared_keys_papers:
  "papers shared_keys =
     [\<lparr>p_id = 1, title = ''First'', doi = Some ''10.1000/d'', arxiv_id = Some ''2401.00002'',
       year = None, venue = None, authors = None, abstract = None, url = None\<rparr>,
      \<lparr>p_id = 2, title = ''Second'', doi = Some ''10.1000/d'', arxiv_id = Some ''2401.00001'',
       year = None, venue = None, authors = None, abstract = None, url = None\<rparr>,
      \<lparr>p_id = 3, title = ''Third'', doi = Some ''10.1000/c'', arxiv_id = Some ''2401.00002'',
       year = None, venue = None, authors = None, abstract = None, url = None\<rparr>]"
  by (simp add: shared_keys_def add_paper_def initialize_def new_rowid_def
      unique_conflict_def sql_eq_def Let_def)

theorem tracked_lookup_precedence_witness:
  "map p_id (index_order (papers shared_keys)) = [3, 2, 1] \<and>
   truthy (Some ''10.1000/d'') \<and>
   fst (add_tracked_paper shared_keys (Some ''10.1000/d'') (Some ''2401.00002'') (Some ''Third''))
     = Some 2 \<and>
   \<not> truthy (Some '''') \<and> truthy (Some ''2401.00002'') \<and>
   fst (add_tracked_paper shared_keys (Some '''') (Some ''2401.00002'') (Some ''Second''))
     = Some 3 \<and>
   \<not> truthy None \<and> ''IR'' \<noteq> [] \<and>
   fst (add_tracked_paper shared_keys None None (Some ''IR'')) = Some 1 \<and>
   CHR ''%'' \<notin> set ''IR'' \<and> CHR ''_'' \<notin> set ''IR'' \<and>
   title_contains ''IR'' ''First'' \<and>
   add_tracked_paper shared_keys None (Some '''') None = (None, shared_keys) \<and>
   fst (add_tracked_paper shared_keys (Some ''10.1000/zz'') (Some ''2401.00002'') None) = None \<and>
   snd (add_tracked_paper shared_keys (Some ''10.1000/zz'') (Some ''2401.00002'') None)
     = shared_keys"
proof -
  have io: "index_order (papers shared_keys) =
      [papers shared_keys ! 2, papers shared_keys ! 1, papers shared_keys ! 0]"
    by (simp add: shared_keys_papers index_order_def)
  have l: "like_match (''%'' @ ''IR'' @ ''%'') ''First''"
    by (simp add: ascii_lower_def)
  show ?thesis
    using tracked_lookup_precedence[of "Some ''10.1000/d''" shared_keys "Some ''2401.00002''"
        "Some ''Third''" 2 "''IR''" "''First''"]
      tracked_lookup_precedence[of "Some ''''" shared_keys "Some ''2401.00002''"
        "Some ''Second''" 3 "''IR''" "''First''"]
      tracked_lookup_precedence[of None shared_keys None None 1 "''IR''" "''First''"]
      tracked_lookup_precedence[of None shared_keys "Some ''''" None 1 "''IR''" "''First''"]
      tracked_lookup_precedence[of "Some ''10.1000/zz''" shared_keys "Some ''2401.00002''" None
        1 "''IR''" "''First''"]
      l
    by (simp add: io truthy_def) (simp add: shared_keys_papers)
qed

section \<open>Total citations\<close>

lemma map_filter_id_Some: "List.map_filter id (map (\<lambda>x. Some (f x)) xs) = map f xs"
  by (induction xs) (auto simp: List.map_filter_def)

lemma sql_max_Some:
  "rs \<noteq> [] \<Longrightarrow> sql_max (map (\<lambda>c. Some (f c)) rs) = Some (Max (f ` set rs))"
proof -
  assume "rs \<noteq> []"
  then obtain r rs' where rs: "rs = r # rs'" by (cases rs) auto
  have "fold max (map f rs') (f r) = Max (set (f r # map f rs'))"
    by (rule Max.set_eq_fold[symmetric])
  then show ?thesis
    by (simp add: sql_max_def map_filter_id_Some rs)
qed

lemma sql_sum_Some:
  "sql_sum (map (\<lambda>k. Some (g k)) ks) = (if ks = [] then None else Some (sum_list (map g ks)))"
  by (cases ks) (simp_all add: sql_sum_def map_filter_id_Some)

lemma latest_snd:
  "map snd (latest rows) =
     map (\<lambda>k. Some (Max (citation_count ` {c \<in> set rows. c_paper_id c = k})))
       (remdups (map c_paper_id rows))"
proof -
  have "sql_max (map (\<lambda>c. Some (citation_count c)) (filter (\<lambda>c. c_paper_id c = k) rows)) =
        Some (Max (citation_count ` {c \<in> set rows. c_paper_id c = k}))"
    if "k \<in> set (map c_paper_id rows)" for k
  proof -
    from that have "filter (\<lambda>c. c_paper_id c = k) rows \<noteq> []"
      by (auto simp: filter_empty_conv)
    from sql_max_Some[OF this, of citation_count] show ?thesis by simp
  qed
  then show ?thesis
    by (simp add: latest_def comp_def)
qed

lemma total_of_rows:
  "(case sql_sum (map snd (latest rows)) of None \<Rightarrow> 0 | Some t \<Rightarrow> if t \<noteq> 0 then t else 0) =
   max_per_paper_then_sum rows"
proof -
  have "sum_list (map g (remdups (map c_paper_id rows))) = sum g (c_paper_id ` set rows)" for g :: "int \<Rightarrow> int"
    using sum_list_distinct_conv_sum_set[of "remdups (map c_paper_id rows)" g] by simp
  then show ?thesis
    by (cases "rows = []")
      (simp_all add: latest_snd sql_sum_Some max_per_paper_then_sum_def sql_sum_Some[of _ "[]", simplified])
qed

text \<open>
  Claim C2. \<^verbatim>\<open>get_total_citations\<close> is the sum, over the distinct papers with at least
  one observation, of each paper's maximum observed count: over the whole ledger when no
  platform is given (\<^verbatim>\<open>None\<close> or the empty string, which \<^verbatim>\<open>if platform:\<close> treats alike),
  over the observations of the platform otherwise. An empty ledger gives 0. The witness
  is the example of the specification: the total is 18, not the 28 of all rows.
\<close>

theorem get_total_citations_max_per_paper:
  "get_total_citations s None = max_per_paper_then_sum (citations s) \<and>
   (pf \<noteq> [] \<longrightarrow>
      get_total_citations s (Some pf) = max_per_paper_then_sum (on_platform pf (citations s))) \<and>
   get_total_citations s (Some []) = max_per_paper_then_sum (citations s) \<and>
   (citations s = [] \<longrightarrow> get_total_citations s pl = 0)"
proof -
  have "get_total_citations s pl = 0" if "citations s = []"
    using that by (simp add: get_total_citations_def Let_def latest_def sql_sum_def List.map_filter_def)
  then show ?thesis
    by (simp add: get_total_citations_def Let_def truthy_def sql_eq_def on_platform_def total_of_rows)
qed

theorem get_total_citations_max_per_paper_witness:
  "map (\<lambda>c. (c_paper_id c, platform c, citation_count c)) (citations three_observations) =
     [(1, ''X'', 10), (1, ''X'', 15), (2, ''Y'', 3)] \<and>
   max_per_paper_then_sum (citations three_observations) = 18 \<and>
   sum_list (map citation_count (citations three_observations)) = 28 \<and>
   ''X'' \<noteq> [] \<and> max_per_paper_then_sum (on_platform ''X'' (citations three_observations)) = 15 \<and>
   citations initialize = [] \<and> get_total_citations initialize (Some ''X'') = 0"
proof -
  have c: "citations three_observations =
     [\<lparr>c_id = 1, c_paper_id = 1, platform = ''X'', citation_count = 10, h_index = None, metadata = None\<rparr>,
      \<lparr>c_id = 2, c_paper_id = 1, platform = ''X'', citation_count = 15, h_index = None, metadata = None\<rparr>,
      \<lparr>c_id = 3, c_paper_id = 2, platform = ''Y'', citation_count = 3, h_index = None, metadata = None\<rparr>]"
    by (simp add: three_observations_def add_citation_record_def initialize_def new_rowid_def Let_def)
  have 1: "get_total_citations three_observations None = 18"
    by (simp add: get_total_citations_def c truthy_def latest_def sql_max_def sql_sum_def
        List.map_filter_def Let_def)
  have 2: "get_total_citations three_observations (Some ''X'') = 15"
    by (simp add: get_total_citations_def c truthy_def latest_def sql_max_def sql_sum_def
        List.map_filter_def sql_eq_def Let_def)
  show ?thesis
    using get_total_citations_max_per_paper[of three_observations "''X''" "Some ''X''"]
      get_total_citations_max_per_paper[of initialize "''X''" "Some ''X''"] 1 2
    by (simp add: c) (simp add: initialize_def)
qed

section \<open>The stable descending sort\<close>

lemma set_insort_desc: "set (insort_desc f x xs) = insert x (set xs)"
  by (induction xs) auto

lemma mset_insort_desc: "mset (insort_desc f x xs) = add_mset x (mset xs)"
  by (induction xs) auto

lemma mset_sort_desc: "mset (sort_desc f xs) = mset xs"
  by (induction xs) (simp_all add: sort_desc_def mset_insort_desc)

lemma set_sort_desc: "set (sort_desc f xs) = set xs"
  using mset_sort_desc[of f xs] by (metis set_mset_mset)

lemma length_sort_desc: "length (sort_desc f xs) = length xs"
  using mset_sort_desc[of f xs] by (metis size_mset)

lemma sorted_insort_desc:
  "sorted_wrt (\<lambda>a b. f b \<le> f a) xs \<Longrightarrow> sorted_wrt (\<lambda>a b. f b \<le> f a) (insort_desc f x xs)"
  by (induction xs) (auto simp: set_insort_desc)

lemma sorted_sort_desc: "sorted_wrt (\<lambda>a b. f b \<le> f a) (sort_desc f xs)"
  by (induction xs) (simp_all add: sort_desc_def sorted_insort_desc)

lemma filter_insort_desc:
  "sorted_wrt (\<lambda>a b. f b \<le> f a) xs \<Longrightarrow>
   filter (\<lambda>y. f y = k) (insort_desc f x xs) =
     (if f x = k then x # filter (\<lambda>y. f y = k) xs else filter (\<lambda>y. f y = k) xs)"
proof (induction xs)
  case Nil
  then show ?case by simp
next
  case (Cons y ys)
  then have "\<forall>z \<in> set ys. f z \<le> f y" by simp
  then have "f y < f x \<Longrightarrow> filter (\<lambda>z. f z = f x) ys = []"
    by (auto simp: filter_empty_conv)
  with Cons show ?case by auto
qed

lemma filter_sort_desc:
  "filter (\<lambda>y. f y = k) (sort_desc f xs) = filter (\<lambda>y. f y = k) xs"
proof (induction xs)
  case Nil
  then show ?case by (simp add: sort_desc_def)
next
  case (Cons x xs)
  have "sort_desc f (x # xs) = insort_desc f x (sort_desc f xs)"
    by (simp add: sort_desc_def)
  then show ?case
    using Cons filter_insort_desc[OF sorted_sort_desc, of f k x xs] by simp
qed


lemma length_filter_sort_desc:
  "length (filter P (sort_desc f xs)) = length (filter P xs)"
proof -
  have "mset (filter P (sort_desc f xs)) = mset (filter P xs)"
    by (simp add: mset_sort_desc)
  then show ?thesis by (metis size_mset)
qed

section \<open>Properties of the h-index\<close>

lemma at_least_h_sort_desc: "at_least_h (sort_desc f cs) m = at_least_h cs m"
  by (simp add: at_least_h_def length_filter_sort_desc)

lemma h_scan_result:
  "h_scan ys i h = h \<or> (\<exists>k<length ys. h_scan ys i h = i + k + 1 \<and> int (i + k + 1) \<le> ys ! k)"
proof (induction ys arbitrary: i h)
  case Nil
  then show ?case by simp
next
  case (Cons c cs)
  let ?h' = "if int (i + 1) \<le> c then i + 1 else h"
  from Cons.IH[of "i + 1" ?h']
  consider "h_scan cs (i + 1) ?h' = ?h'"
    | k where "k < length cs" "h_scan cs (i + 1) ?h' = i + 1 + k + 1" "int (i + 1 + k + 1) \<le> cs ! k"
    by blast
  then show ?case
  proof cases
    case 1
    then show ?thesis by (cases "int (i + 1) \<le> c") auto
  next
    case 2
    then have "Suc k < length (c # cs) \<and> h_scan (c # cs) i h = i + Suc k + 1 \<and>
      int (i + Suc k + 1) \<le> (c # cs) ! Suc k" by simp
    then show ?thesis by blast
  qed
qed

lemma h_scan_ge_start: "h \<le> i \<Longrightarrow> h \<le> h_scan ys i h"
proof (induction ys arbitrary: i h)
  case Nil
  then show ?case by simp
next
  case (Cons c cs)
  let ?h' = "if int (i + 1) \<le> c then i + 1 else h"
  have "?h' \<le> i + 1" using Cons.prems by simp
  from Cons.IH[OF this] have "?h' \<le> h_scan cs (i + 1) ?h'" .
  moreover have "h \<le> ?h'" using Cons.prems by simp
  ultimately show ?case by simp
qed

lemma h_scan_ge_hit:
  "k < length ys \<Longrightarrow> int (i + k + 1) \<le> ys ! k \<Longrightarrow> h \<le> i \<Longrightarrow> i + k + 1 \<le> h_scan ys i h"
proof (induction ys arbitrary: i h k)
  case Nil
  then show ?case by simp
next
  case (Cons c cs)
  let ?h' = "if int (i + 1) \<le> c then i + 1 else h"
  have le: "?h' \<le> i + 1" using Cons.prems by simp
  show ?case
  proof (cases k)
    case 0
    with Cons.prems have "?h' = i + 1" by simp
    with h_scan_ge_start[OF le, of cs] 0 show ?thesis by simp
  next
    case (Suc k')
    with Cons.prems have "k' < length cs" "int (i + 1 + k' + 1) \<le> cs ! k'" by simp_all
    from Cons.IH[OF this le] Suc show ?thesis by simp
  qed
qed

lemma sorted_desc_index:
  assumes "sorted_wrt (\<lambda>a b. b \<le> a) ys" "1 \<le> m" "m \<le> length ys"
  shows "(int m \<le> ys ! (m - 1)) = at_least_h ys m"
proof
  assume hit: "int m \<le> ys ! (m - 1)"
  have "int m \<le> ys ! j" if "j < m" for j
  proof (cases "j = m - 1")
    case True
    with hit show ?thesis by simp
  next
    case False
    with that assms have "j < m - 1" "m - 1 < length ys" by simp_all
    from sorted_wrt_nth_less[OF assms(1) this] hit show ?thesis by simp
  qed
  then have "\<forall>x \<in> set (take m ys). int m \<le> x"
    using assms(3) by (auto simp: in_set_conv_nth)
  then have "filter (\<lambda>c. int m \<le> c) (take m ys) = take m ys" by simp
  moreover have "filter (\<lambda>c. int m \<le> c) ys =
      filter (\<lambda>c. int m \<le> c) (take m ys) @ filter (\<lambda>c. int m \<le> c) (drop m ys)"
    by (metis append_take_drop_id filter_append)
  ultimately show "at_least_h ys m"
    using assms(3) by (simp add: at_least_h_def)
next
  assume a: "at_least_h ys m"
  show "int m \<le> ys ! (m - 1)"
  proof (rule ccontr)
    assume miss: "\<not> int m \<le> ys ! (m - 1)"
    have "\<not> int m \<le> ys ! j" if "m - 1 \<le> j" "j < length ys" for j
    proof (cases "j = m - 1")
      case True
      with miss show ?thesis by simp
    next
      case False
      with that have "m - 1 < j" by simp
      from sorted_wrt_nth_less[OF assms(1) this that(2)] miss show ?thesis by simp
    qed
    then have "\<forall>x \<in> set (drop (m - 1) ys). \<not> int m \<le> x"
      by (auto simp: in_set_conv_nth)
    then have "filter (\<lambda>c. int m \<le> c) (drop (m - 1) ys) = []" by simp
    moreover have "filter (\<lambda>c. int m \<le> c) ys =
        filter (\<lambda>c. int m \<le> c) (take (m - 1) ys) @ filter (\<lambda>c. int m \<le> c) (drop (m - 1) ys)"
      by (metis append_take_drop_id filter_append)
    ultimately have "length (filter (\<lambda>c. int m \<le> c) ys) \<le> m - 1"
      using length_filter_le[of "\<lambda>c. int m \<le> c" "take (m - 1) ys"] by simp
    with a assms(2) show False by (simp add: at_least_h_def)
  qed
qed

lemma calculate_h_index_admissible: "at_least_h cs (calculate_h_index cs)"
proof -
  let ?ys = "sort_desc id cs"
  have srt: "sorted_wrt (\<lambda>a b. b \<le> a) ?ys"
    using sorted_sort_desc[of id cs] by simp
  from h_scan_result[of ?ys 0 0]
  consider "h_scan ?ys 0 0 = 0"
    | k where "k < length ?ys" "h_scan ?ys 0 0 = k + 1" "int (k + 1) \<le> ?ys ! k"
    by auto
  then have "at_least_h ?ys (h_scan ?ys 0 0)"
  proof cases
    case 1
    then show ?thesis by (simp add: at_least_h_def)
  next
    case 2
    with sorted_desc_index[OF srt, of "k + 1"] show ?thesis by simp
  qed
  then show ?thesis
    by (simp add: calculate_h_index_def at_least_h_sort_desc)
qed

lemma calculate_h_index_greatest:
  assumes "at_least_h cs m"
  shows "m \<le> calculate_h_index cs"
proof (cases m)
  case 0
  then show ?thesis by simp
next
  case (Suc k)
  let ?ys = "sort_desc id cs"
  have srt: "sorted_wrt (\<lambda>a b. b \<le> a) ?ys"
    using sorted_sort_desc[of id cs] by simp
  have a: "at_least_h ?ys m" using assms by (simp add: at_least_h_sort_desc)
  then have len: "m \<le> length ?ys"
    unfolding at_least_h_def by (rule order_trans) (rule length_filter_le)
  from sorted_desc_index[OF srt _ len] a Suc have "int m \<le> ?ys ! (m - 1)" by simp
  with h_scan_ge_hit[of k ?ys 0 0] len Suc show ?thesis
    by (simp add: calculate_h_index_def)
qed

lemma length_filter_update_mono:
  "i < length cs \<Longrightarrow> (P (cs ! i) \<Longrightarrow> P v) \<Longrightarrow>
   length (filter P cs) \<le> length (filter P (cs[i := v]))"
proof (induction cs arbitrary: i)
  case Nil
  then show ?case by simp
next
  case (Cons c cs)
  then show ?case by (cases i) auto
qed

text \<open>
  Claim C9. The h-index of the empty sequence is 0, and raising one citation count
  never lowers the h-index. The value computed by the sort-and-scan algorithm is the
  largest \<open>h\<close> such that at least \<open>h\<close> papers have at least \<open>h\<close> citations each: it is
  admissible, and every admissible \<open>h\<close> is below it.
\<close>

theorem calculate_h_index_monotone:
  "calculate_h_index [] = 0 \<and>
   (i < length cs \<and> cs ! i \<le> v \<longrightarrow> calculate_h_index cs \<le> calculate_h_index (cs[i := v])) \<and>
   at_least_h cs (calculate_h_index cs) \<and>
   (at_least_h cs h \<longrightarrow> h \<le> calculate_h_index cs)"
proof -
  have "calculate_h_index cs \<le> calculate_h_index (cs[i := v])" if "i < length cs" "cs ! i \<le> v"
  proof -
    let ?h = "calculate_h_index cs"
    have "length (filter (\<lambda>c. int ?h \<le> c) cs) \<le> length (filter (\<lambda>c. int ?h \<le> c) (cs[i := v]))"
      using that by (intro length_filter_update_mono) auto
    with calculate_h_index_admissible[of cs] have "at_least_h (cs[i := v]) ?h"
      by (simp add: at_least_h_def)
    then show ?thesis by (rule calculate_h_index_greatest)
  qed
  moreover have "calculate_h_index [] = 0"
    by (simp add: calculate_h_index_def sort_desc_def)
  ultimately show ?thesis
    using calculate_h_index_admissible[of cs] calculate_h_index_greatest[of cs h] by blast
qed

theorem calculate_h_index_monotone_witness:
  "(1::nat) < length [2, 1::int] \<and> [2, 1::int] ! 1 \<le> 2 \<and>
   calculate_h_index [2, 1] = 1 \<and> calculate_h_index ([2, 1][1 := 2]) = 2 \<and>
   calculate_h_index [2, 1] \<le> calculate_h_index ([2, 1][1 := 2]) \<and>
   at_least_h [2, 1] 1 \<and> \<not> at_least_h [2, 1] 2 \<and>
   calculate_h_index [20, 10, 5] = 3 \<and> calculate_h_index [0, 0] = 0"
  using calculate_h_index_monotone[of 1 "[2, 1]" 2 1]
  by (simp add: calculate_h_index_def sort_desc_def at_least_h_def)

section \<open>Papers without observations\<close>

lemma left_join_rows:
  "r \<in> set (left_join_citations s p) \<Longrightarrow>
   fst r = p \<and> ((\<forall>c \<in> set (citations s). c_paper_id c \<noteq> p_id p) \<longrightarrow> snd r = None)"
  by (auto simp: left_join_citations_def Let_def filter_empty_conv split: if_splits)

lemma left_join_nonempty: "left_join_citations s p \<noteq> []"
  by (simp add: left_join_citations_def Let_def)

lemma group_by_id_covers:
  "r \<in> set rows \<Longrightarrow> \<exists>g \<in> set (group_by_id rows). p_id (fst g) = p_id (fst r)"
proof (induction rows rule: group_by_id.induct)
  case 1
  then show ?case by simp
next
  case (2 p c rows)
  show ?case
  proof (cases "p_id (fst r) = p_id p")
    case True
    then show ?thesis by simp
  next
    case False
    with "2.prems" have "r \<in> set (filter (\<lambda>r. p_id (fst r) \<noteq> p_id p) rows)" by auto
    from "2.IH"[OF this] show ?thesis by auto
  qed
qed

lemma group_by_id_members:
  "g \<in> set (group_by_id rows) \<Longrightarrow> c \<in> set (snd g) \<Longrightarrow>
   \<exists>r \<in> set rows. p_id (fst r) = p_id (fst g) \<and> snd r = c"
proof (induction rows rule: group_by_id.induct)
  case 1
  then show ?case by simp
next
  case (2 p c0 rows)
  from "2.prems"(1) consider
      "g = (p, c0 # map snd (filter (\<lambda>r. p_id (fst r) = p_id p) rows))"
    | "g \<in> set (group_by_id (filter (\<lambda>r. p_id (fst r) \<noteq> p_id p) rows))"
    by auto
  then show ?case
  proof cases
    case 1
    with "2.prems"(2) show ?thesis by auto
  next
    case 2
    from "2.IH"[OF this "2.prems"(2)] obtain r where
      "r \<in> set rows" "p_id (fst r) = p_id (fst g)" "snd r = c" by auto
    then show ?thesis by (intro bexI[of _ r]) auto
  qed
qed

lemma sql_max_all_null: "(\<forall>c \<in> set cs. c = None) \<Longrightarrow> sql_max cs = None"
proof -
  assume "\<forall>c \<in> set cs. c = None"
  then have "List.map_filter id cs = []"
    by (induction cs) (auto simp: List.map_filter_def)
  then show ?thesis by (simp add: sql_max_def)
qed

lemma tracked_join_rows:
  "r \<in> set (tracked_join s) \<Longrightarrow> r \<in> set (left_join_citations s (fst r))"
  using left_join_rows by (fastforce simp: tracked_join_def split: if_splits)

lemma all_join_rows:
  "r \<in> set (concat (map (left_join_citations s) (papers s))) \<Longrightarrow>
   r \<in> set (left_join_citations s (fst r))"
  using left_join_rows by fastforce

lemma group_without_observations:
  assumes rows: "\<And>r. r \<in> set rows \<Longrightarrow> r \<in> set (left_join_citations s (fst r))"
    and g: "g \<in> set (group_by_id rows)"
    and none: "\<forall>c \<in> set (citations s). c_paper_id c \<noteq> p_id (fst g)"
  shows "sql_max (snd g) = None"
proof (rule sql_max_all_null, rule ballI)
  fix c assume "c \<in> set (snd g)"
  from group_by_id_members[OF g this] obtain r where
    r: "r \<in> set rows" "p_id (fst r) = p_id (fst g)" "snd r = c" by blast
  from left_join_rows[OF rows[OF r(1)]] none r show "c = None" by simp
qed

text \<open>
  Claim C10. A tracked paper (a \<^verbatim>\<open>tracked_papers\<close> row whose \<^verbatim>\<open>paper_id\<close> is the id of a
  paper) has a row in the result of \<^verbatim>\<open>get_tracked_papers\<close>, and a result row of a paper
  without observations has \<^verbatim>\<open>citations = None\<close>. Every paper has a row in the result of
  \<^verbatim>\<open>get_papers_with_latest_citations\<close>, and there a row of a paper without observations
  has \<^verbatim>\<open>citations = 0\<close>.
\<close>

theorem no_observations_null_or_zero:
  "(tp \<in> set (tracked_papers s) \<and> p \<in> set (papers s) \<and> t_paper_id tp = p_id p \<longrightarrow>
      (\<exists>r \<in> set (get_tracked_papers s). p_id (fst r) = p_id p)) \<and>
   (r \<in> set (get_tracked_papers s) \<and>
      (\<forall>c \<in> set (citations s). c_paper_id c \<noteq> p_id (fst r)) \<longrightarrow> snd r = None) \<and>
   (p \<in> set (papers s) \<longrightarrow>
      (\<exists>r \<in> set (get_papers_with_latest_citations s). p_id (fst r) = p_id p)) \<and>
   (q \<in> set (get_papers_with_latest_citations s) \<and>
      (\<forall>c \<in> set (citations s). c_paper_id c \<noteq> p_id (fst q)) \<longrightarrow> snd q = 0)"
proof -
  have 1: "\<exists>r \<in> set (get_tracked_papers s). p_id (fst r) = p_id p"
    if "tp \<in> set (tracked_papers s)" "p \<in> set (papers s)" "t_paper_id tp = p_id p"
  proof -
    obtain r where r: "r \<in> set (left_join_citations s p)"
      using left_join_nonempty[of s p] by (cases "left_join_citations s p") auto
    with that have "r \<in> set (tracked_join s)"
      by (auto simp: tracked_join_def intro!: bexI[of _ p] bexI[of _ tp])
    from group_by_id_covers[OF this] left_join_rows[OF r]
    obtain g where "g \<in> set (group_by_id (tracked_join s))" "p_id (fst g) = p_id p" by auto
    then have "(fst g, sql_max (snd g)) \<in> set (get_tracked_papers s)"
      by (force simp: get_tracked_papers_def set_sort_desc)
    with \<open>p_id (fst g) = p_id p\<close> show ?thesis by force
  qed
  have 2: "snd r = None"
    if "r \<in> set (get_tracked_papers s)" "\<forall>c \<in> set (citations s). c_paper_id c \<noteq> p_id (fst r)"
  proof -
    from that(1) obtain g where g: "g \<in> set (group_by_id (tracked_join s))"
      "r = (fst g, sql_max (snd g))"
      by (auto simp: get_tracked_papers_def set_sort_desc)
    with group_without_observations[OF tracked_join_rows g(1)] that(2) show ?thesis by simp
  qed
  have 3: "\<exists>r \<in> set (get_papers_with_latest_citations s). p_id (fst r) = p_id p"
    if "p \<in> set (papers s)"
  proof -
    obtain r where r: "r \<in> set (left_join_citations s p)"
      using left_join_nonempty[of s p] by (cases "left_join_citations s p") auto
    with that have "r \<in> set (concat (map (left_join_citations s) (papers s)))" by auto
    from group_by_id_covers[OF this] left_join_rows[OF r]
    obtain g where "g \<in> set (group_by_id (concat (map (left_join_citations s) (papers s))))"
      "p_id (fst g) = p_id p" by auto
    then have "(fst g, coalesce (sql_max (snd g)) 0) \<in> set (get_papers_with_latest_citations s)"
      by (force simp: get_papers_with_latest_citations_def set_sort_desc)
    with \<open>p_id (fst g) = p_id p\<close> show ?thesis by force
  qed
  have 4: "snd q = 0"
    if "q \<in> set (get_papers_with_latest_citations s)"
      "\<forall>c \<in> set (citations s). c_paper_id c \<noteq> p_id (fst q)"
  proof -
    from that(1) obtain g where
      g: "g \<in> set (group_by_id (concat (map (left_join_citations s) (papers s))))"
      "q = (fst g, coalesce (sql_max (snd g)) 0)"
      by (auto simp: get_papers_with_latest_citations_def set_sort_desc)
    with group_without_observations[OF all_join_rows g(1)] that(2) show ?thesis
      by (simp add: coalesce_def)
  qed
  from 1 2 3 4 show ?thesis by blast
qed

lemma two_papers_value:
  "two_papers =
     \<lparr>papers =
        [\<lparr>p_id = 1, title = ''Deep Learning'', doi = Some ''10.1000/dl'',
          arxiv_id = Some ''1501.00001'', year = None, venue = None, authors = None,
          abstract = None, url = None\<rparr>,
         \<lparr>p_id = 2, title = ''Shallow Parsing'', doi = Some ''10.1000/sp'',
          arxiv_id = Some ''1502.00002'', year = None, venue = None, authors = None,
          abstract = None, url = None\<rparr>],
      papers_seq = 2, citations = [], citations_seq = 0, tracked_papers = [],
      tracked_papers_seq = 0, sync_status = [], last_insert_rowid = 2\<rparr>"
  by (simp add: two_papers_def add_paper_def initialize_def new_rowid_def
      unique_conflict_def sql_eq_def Let_def)

lemma tracked_example_value:
  "tracked_example =
     \<lparr>papers = papers two_papers, papers_seq = 2,
      citations =
        [\<lparr>c_id = 1, c_paper_id = 1, platform = ''X'', citation_count = 7, h_index = None,
          metadata = None\<rparr>],
      citations_seq = 1,
      tracked_papers =
        [\<lparr>t_id = 1, t_paper_id = 1, alert_enabled = True\<rparr>,
         \<lparr>t_id = 2, t_paper_id = 2, alert_enabled = True\<rparr>],
      tracked_papers_seq = 2, sync_status = [], last_insert_rowid = 1\<rparr>"
  by (simp add: tracked_example_def add_citation_record_def add_tracked_paper_def
      find_paper_def two_papers_value truthy_def sql_eq_def fetchone_def new_rowid_def
      index_order_def Let_def)

theorem no_observations_null_or_zero_witness:
  "map (\<lambda>r. (p_id (fst r), snd r)) (get_tracked_papers tracked_example) =
     [(1, Some 7), (2, None)] \<and>
   map (\<lambda>r. (p_id (fst r), snd r)) (get_papers_with_latest_citations tracked_example) =
     [(1, 7), (2, 0)] \<and>
   tracked_papers tracked_example ! 1 \<in> set (tracked_papers tracked_example) \<and>
   papers tracked_example ! 1 \<in> set (papers tracked_example) \<and>
   t_paper_id (tracked_papers tracked_example ! 1) = p_id (papers tracked_example ! 1) \<and>
   get_tracked_papers tracked_example ! 1 \<in> set (get_tracked_papers tracked_example) \<and>
   get_papers_with_latest_citations tracked_example ! 1
     \<in> set (get_papers_with_latest_citations tracked_example) \<and>
   map c_paper_id (citations tracked_example) = [1] \<and>
   snd (get_tracked_papers tracked_example ! 1) = None \<and>
   snd (get_papers_with_latest_citations tracked_example ! 1) = 0"
proof -
  have a: "get_tracked_papers tracked_example =
      [(papers two_papers ! 0, Some 7), (papers two_papers ! 1, None)]"
    by (simp add: get_tracked_papers_def tracked_join_def left_join_citations_def
        tracked_example_value two_papers_value sql_max_def List.map_filter_def
        sort_desc_def Let_def)
  have b: "get_papers_with_latest_citations tracked_example =
      [(papers two_papers ! 0, 7), (papers two_papers ! 1, 0)]"
    by (simp add: get_papers_with_latest_citations_def left_join_citations_def
        tracked_example_value two_papers_value sql_max_def List.map_filter_def
        sort_desc_def coalesce_def Let_def)
  show ?thesis
    using no_observations_null_or_zero[of "tracked_papers tracked_example ! 1" tracked_example
        "papers tracked_example ! 1" "get_tracked_papers tracked_example ! 1"
        "get_papers_with_latest_citations tracked_example ! 1"]
    by (simp add: a b) (simp add: tracked_example_value two_papers_value)
qed

section \<open>The collaboration rule\<close>

lemma solo_loop_filter:
  "solo_loop loads ps acc = acc @ filter (\<lambda>r. is_solo loads (fst r)) ps"
  by (induction ps arbitrary: acc) (auto simp: is_solo_def split: option.splits)

lemma thirty_percent: "(real b * 0.3 < real a) = (3 * b < 10 * a)"
  by auto

lemma group_by_id_distinct:
  assumes "distinct (map p_id ps)"
    and f: "\<And>p. f p \<noteq> [] \<and> (\<forall>r \<in> set (f p). fst r = p)"
  shows "group_by_id (concat (map f ps)) = map (\<lambda>p. (p, map snd (f p))) ps"
  using assms(1)
proof (induction ps)
  case Nil
  then show ?case by simp
next
  case (Cons p ps)
  let ?rest = "concat (map f ps)"
  from f[of p] obtain c tl where fp: "f p = (p, c) # tl"
    by (cases "f p") (auto simp: prod_eq_iff)
  have tl: "\<forall>r \<in> set tl. fst r = p" using f[of p] fp by simp
  have rest: "\<forall>r \<in> set ?rest. p_id (fst r) \<noteq> p_id p"
  proof
    fix r assume "r \<in> set ?rest"
    then obtain q where "q \<in> set ps" "r \<in> set (f q)" by auto
    with f[of q] have "fst r = q" by simp
    moreover from Cons.prems have "p_id p \<notin> p_id ` set ps" by simp
    ultimately show "p_id (fst r) \<noteq> p_id p"
      using \<open>q \<in> set ps\<close> by (metis image_eqI)
  qed
  have 1: "filter (\<lambda>r. p_id (fst r) = p_id p) (tl @ ?rest) = tl"
    using tl rest by (simp add: filter_empty_conv filter_id_conv)
  have 2: "filter (\<lambda>r. p_id (fst r) \<noteq> p_id p) (tl @ ?rest) = ?rest"
    using tl rest by (simp add: filter_empty_conv filter_id_conv)
  have "group_by_id (concat (map f (p # ps))) = group_by_id ((p, c) # (tl @ ?rest))"
    by (simp add: fp)
  also have "\<dots> = (p, c # map snd tl) # group_by_id ?rest"
    by (simp only: group_by_id.simps 1 2)
  finally show ?case using Cons by (simp add: fp)
qed

lemma latest_citations_distinct:
  assumes "distinct (map p_id (papers s))"
  shows "get_papers_with_latest_citations s =
     sort_desc snd
       (map (\<lambda>p. (p, coalesce (sql_max (map snd (left_join_citations s p))) 0)) (papers s))"
proof -
  have "left_join_citations s p \<noteq> [] \<and> (\<forall>r \<in> set (left_join_citations s p). fst r = p)" for p
    using left_join_nonempty left_join_rows by blast
  from group_by_id_distinct[OF assms, of "left_join_citations s", OF this]
  show ?thesis
    by (simp add: get_papers_with_latest_citations_def comp_def)
qed

text \<open>
  Claim C6. With \<open>P\<close> the rows \<^verbatim>\<open>get_papers_with_latest_citations\<close> returns, the
  collaboration rule emits its one high-priority entry exactly when the number of solo
  rows of \<open>P\<close> is strictly more than 30 percent of the number of rows of \<open>P\<close>, and
  nothing otherwise. A paper is solo when its \<^verbatim>\<open>authors\<close> text is present, parses, and
  the parsed value has length at most 2; a paper without \<^verbatim>\<open>authors\<close> or with text that
  does not parse is not solo, and the rule has a result for it all the same. On a store
  whose paper ids are distinct, as the primary key makes them, \<open>P\<close> has one row for each
  paper, so the two numbers are the ones of the \<^verbatim>\<open>papers\<close> table.
\<close>

theorem collaboration_rule_threshold:
  "collaboration_recommendations loads s =
     (if 3 * length (get_papers_with_latest_citations s)
           < 10 * length (filter (\<lambda>r. is_solo loads (fst r)) (get_papers_with_latest_citations s))
      then [\<lparr>category = ''collaboration'', priority = ''high'',
             rec_title = ''Increase collaboration'',
             data = SoloCountData
               (length (filter (\<lambda>r. is_solo loads (fst r))
                          (get_papers_with_latest_citations s)))\<rparr>]
      else []) \<and>
   (distinct (map p_id (papers s)) \<longrightarrow>
      length (get_papers_with_latest_citations s) = length (papers s) \<and>
      length (filter (\<lambda>r. is_solo loads (fst r)) (get_papers_with_latest_citations s)) =
        length (filter (is_solo loads) (papers s))) \<and>
   (authors p = None \<or> authors p = Some [] \<or> (\<exists>a. authors p = Some a \<and> loads a = None) \<longrightarrow>
      \<not> is_solo loads p)"
proof -
  have 1: "length (get_papers_with_latest_citations s) = length (papers s) \<and>
      length (filter (\<lambda>r. is_solo loads (fst r)) (get_papers_with_latest_citations s)) =
        length (filter (is_solo loads) (papers s))"
    if "distinct (map p_id (papers s))"
    by (simp add: latest_citations_distinct[OF that] length_sort_desc length_filter_sort_desc
        filter_map comp_def)
  have 2: "\<not> is_solo loads p"
    if "authors p = None \<or> authors p = Some [] \<or> (\<exists>a. authors p = Some a \<and> loads a = None)"
    using that by (auto simp: is_solo_def)
  have 3: "collaboration_recommendations loads s =
     (if 3 * length (get_papers_with_latest_citations s)
           < 10 * length (filter (\<lambda>r. is_solo loads (fst r)) (get_papers_with_latest_citations s))
      then [\<lparr>category = ''collaboration'', priority = ''high'',
             rec_title = ''Increase collaboration'',
             data = SoloCountData
               (length (filter (\<lambda>r. is_solo loads (fst r))
                          (get_papers_with_latest_citations s)))\<rparr>]
      else [])"
    by (simp add: collaboration_recommendations_def Let_def solo_loop_filter thirty_percent)
  from 1 2 3 show ?thesis by blast
qed

lemma three_papers_value:
  "three_papers =
     \<lparr>papers =
        [\<lparr>p_id = 1, title = ''Alone'', doi = None, arxiv_id = None, year = None,
          venue = None, authors = Some (dumps_plain [''A'']), abstract = None, url = None\<rparr>,
         \<lparr>p_id = 2, title = ''Team'', doi = None, arxiv_id = None, year = None,
          venue = None, authors = Some (dumps_plain [''A'', ''B'', ''C'']), abstract = None,
          url = None\<rparr>,
         \<lparr>p_id = 3, title = ''Anonymous'', doi = None, arxiv_id = None, year = None,
          venue = None, authors = None, abstract = None, url = None\<rparr>],
      papers_seq = 3, citations = [], citations_seq = 0, tracked_papers = [],
      tracked_papers_seq = 0, sync_status = [], last_insert_rowid = 3\<rparr>"
  by (simp add: three_papers_def add_paper_def initialize_def new_rowid_def
      unique_conflict_def sql_eq_def Let_def)

lemma solo_three_papers:
  "map (is_solo loads_example) (papers three_papers) = [True, False, False]"
  by (simp add: three_papers_value is_solo_def loads_example_def dumps_plain_def)

theorem collaboration_rule_threshold_witness:
  "distinct (map p_id (papers three_papers)) \<and>
   length (papers three_papers) = 3 \<and>
   length (filter (is_solo loads_example) (papers three_papers)) = 1 \<and>
   collaboration_recommendations loads_example three_papers =
     [\<lparr>category = ''collaboration'', priority = ''high'',
       rec_title = ''Increase collaboration'', data = SoloCountData 1\<rparr>] \<and>
   authors (papers three_papers ! 2) = None \<and>
   \<not> is_solo loads_example (papers three_papers ! 2)"
proof -
  have d: "distinct (map p_id (papers three_papers))"
    by (simp add: three_papers_value)
  have n: "length (filter (is_solo loads_example) (papers three_papers)) = 1"
    using solo_three_papers by (simp add: three_papers_value)
  show ?thesis
    using collaboration_rule_threshold[of loads_example three_papers "papers three_papers ! 2"]
      d n
    by (simp add: three_papers_value)
qed

section \<open>The profile rule\<close>

lemma profile_recommendations_open:
  "conn_is_open d \<Longrightarrow>
   \<exists>recs. profile_recommendations platforms d = Inr recs \<and>
          (regular_updates \<in> set recs) = (sync_status (store d) \<noteq> [])"
  by (simp add: profile_recommendations_def regular_updates_def Let_def)

lemma profile_recommendations_closed:
  "\<not> conn_is_open d \<Longrightarrow> profile_recommendations platforms d = Inl AttributeError"
  by (simp add: profile_recommendations_def Let_def)

text \<open>
  Claim C7. Whenever a \<^verbatim>\<open>sync_status\<close> row exists, the profile rule group should emit
  the low-priority entry \<^verbatim>\<open>Regular updates\<close>. The code does so on an open connection, but
  it reads \<^verbatim>\<open>self.db.conn\<close> without \<^verbatim>\<open>self.db.connect()\<close>: on a \<^verbatim>\<open>Database\<close> object as
  the constructor leaves it, over a store with a \<^verbatim>\<open>sync_status\<close> row, the rule group
  raises \<^verbatim>\<open>AttributeError\<close> and emits nothing. After \<^verbatim>\<open>connect\<close> the same object and
  store give the entry.
\<close>

theorem profile_rule_unconnected_raises:
  "map s_platform (sync_status synced_store) = [''orcid''] \<and>
   profile_recommendations scopus_off (new_object synced_store) = Inl AttributeError \<and>
   profile_recommendations scopus_off (connect (new_object synced_store)) =
     Inr [\<lparr>category = ''profile'', priority = ''medium'',
           rec_title = ''Activate more platforms'', data = PlatformsData [''scopus'']\<rparr>,
          regular_updates]"
  by (simp add: profile_recommendations_def new_object_def connect_def reconnect_def
      synced_store_def initialize_def scopus_off_def Let_def)

section \<open>Ranking and truncation\<close>

lemma py_slice_to_take:
  "py_slice_to limit xs =
     take (if 0 \<le> limit then nat limit else length xs - nat (- limit)) xs"
  by (simp add: py_slice_to_def)

lemma no_medium_before_high:
  assumes "sorted_wrt (\<lambda>a b. priority_score b \<le> priority_score a) rs"
    "i < j" "j < length rs"
  shows "\<not> (priority (rs ! i) = ''medium'' \<and> priority (rs ! j) = ''high'')"
proof
  assume "priority (rs ! i) = ''medium'' \<and> priority (rs ! j) = ''high''"
  then have "priority_score (rs ! i) = 2" "priority_score (rs ! j) = 3"
    by (simp_all add: priority_score_def)
  with sorted_wrt_nth_less[OF assms] show False by simp
qed

text \<open>
  What the sort and the slice do to any list of emitted entries: for a limit that is
  not negative the result is exactly the first \<open>limit\<close> entries of the list sorted into
  descending order of priority weight, for a negative limit \<open>-k\<close> it is that sorted
  list without its last \<open>k\<close> entries; it is descending in weight, entries of equal
  weight keep their order of emission, and no medium-priority entry precedes a
  high-priority one.
\<close>

lemma ranked_slice:
  "(0 \<le> limit \<longrightarrow>
      py_slice_to limit (sort_desc priority_score es) =
        take (nat limit) (sort_desc priority_score es) \<and>
      length (py_slice_to limit (sort_desc priority_score es)) = min (nat limit) (length es)) \<and>
   (limit < 0 \<longrightarrow>
      py_slice_to limit (sort_desc priority_score es) =
        take (length es - nat (- limit)) (sort_desc priority_score es)) \<and>
   sorted_wrt (\<lambda>a b. priority_score b \<le> priority_score a)
     (py_slice_to limit (sort_desc priority_score es)) \<and>
   filter (\<lambda>r. priority_score r = w) (sort_desc priority_score es) =
     filter (\<lambda>r. priority_score r = w) es \<and>
   prefix (filter (\<lambda>r. priority_score r = w) (py_slice_to limit (sort_desc priority_score es)))
          (filter (\<lambda>r. priority_score r = w) es) \<and>
   (i < j \<and> j < length (py_slice_to limit (sort_desc priority_score es)) \<longrightarrow>
      \<not> (priority (py_slice_to limit (sort_desc priority_score es) ! i) = ''medium'' \<and>
         priority (py_slice_to limit (sort_desc priority_score es) ! j) = ''high''))"
proof -
  let ?S = "sort_desc priority_score es"
  let ?k = "if 0 \<le> limit then nat limit else length ?S - nat (- limit)"
  let ?R = "py_slice_to limit ?S"
  have R: "?R = take ?k ?S"
    by (simp add: py_slice_to_take)
  have 1: "0 \<le> limit \<longrightarrow> ?R = take (nat limit) ?S \<and> length ?R = min (nat limit) (length es)"
    by (simp add: R length_sort_desc min.commute)
  have 2: "limit < 0 \<longrightarrow> ?R = take (length es - nat (- limit)) ?S"
    by (simp add: R length_sort_desc)
  have 3: "sorted_wrt (\<lambda>a b. priority_score b \<le> priority_score a) ?R"
    unfolding R by (rule sorted_wrt_take) (rule sorted_sort_desc)
  have "prefix (filter (\<lambda>r. priority_score r = w) (take ?k ?S))
          (filter (\<lambda>r. priority_score r = w) ?S)"
    by (rule filter_mono_prefix) (rule take_is_prefix)
  then have 4: "prefix (filter (\<lambda>r. priority_score r = w) ?R)
          (filter (\<lambda>r. priority_score r = w) es)"
    by (simp add: R filter_sort_desc)
  have 5: "i < j \<and> j < length ?R \<longrightarrow>
      \<not> (priority (?R ! i) = ''medium'' \<and> priority (?R ! j) = ''high'')"
    using no_medium_before_high[OF 3] by blast
  have 6: "filter (\<lambda>r. priority_score r = w) ?S = filter (\<lambda>r. priority_score r = w) es"
    by (rule filter_sort_desc)
  show ?thesis
    using 1 2 3 6 4 5 by (intro conjI)
qed

text \<open>
  When the call returns: it raises exactly when the category is \<^verbatim>\<open>profile\<close> and the
  connection is not open, and otherwise returns the sorted and sliced list of the
  emitted entries.
\<close>

lemma connect_open: "conn_is_open (connect d)"
  by (simp add: connect_def)

lemma emitted_returns:
  "(fst (emitted loads platforms lv d cat) = Inl AttributeError) =
     (cat = Some ''profile'' \<and> \<not> conn_is_open d)"
proof (cases "truthy cat")
  case False
  then show ?thesis
    using profile_recommendations_open[OF connect_open, of platforms "connect d"]
    by (auto simp: emitted_def Let_def truthy_def split: sum.splits)
next
  case True
  show ?thesis
  proof (cases "cat = Some ''profile''")
    case False
    with True show ?thesis
      by (auto simp: emitted_def Let_def split: sum.splits)
  next
    case p: True
    show ?thesis
    proof (cases "conn_is_open d")
      case True
      with p profile_recommendations_open[OF True, of platforms] show ?thesis
        by (auto simp: emitted_def Let_def truthy_def)
    next
      case False
      with p profile_recommendations_closed[OF False, of platforms] show ?thesis
        by (simp add: emitted_def Let_def truthy_def)
    qed
  qed
qed

lemma generate_recommendations_result:
  "fst (generate_recommendations loads platforms lv d limit cat) =
     (case fst (emitted loads platforms lv d cat) of
        Inl e \<Rightarrow> Inl e
      | Inr es \<Rightarrow> Inr (py_slice_to limit (sort_desc priority_score es)))"
  by (simp add: generate_recommendations_def split: prod.splits sum.splits)

text \<open>
  Claim C5. For every limit and category \<^verbatim>\<open>generate_recommendations\<close> should return the
  ranked and truncated list. With the category \<^verbatim>\<open>profile\<close> on a \<^verbatim>\<open>Database\<close> object as the
  constructor leaves it, which is how \<^verbatim>\<open>recommend_command\<close> calls it, no rule group
  opens the connection before the profile group reads it, and the call raises
  \<^verbatim>\<open>AttributeError\<close> instead of returning a list. The same call returns the ranked list
  once the connection is open, and so does the call without a category, whose
  visibility group opens it.
\<close>

theorem generate_recommendations_profile_unconnected:
  "fst (generate_recommendations loads_example scopus_off [] (new_object synced_store) 5
          (Some ''profile'')) = Inl AttributeError \<and>
   fst (generate_recommendations loads_example scopus_off [] (connect (new_object synced_store)) 5
          (Some ''profile'')) =
     Inr [\<lparr>category = ''profile'', priority = ''medium'',
           rec_title = ''Activate more platforms'', data = PlatformsData [''scopus'']\<rparr>,
          regular_updates] \<and>
   fst (generate_recommendations loads_example scopus_off [] (new_object synced_store) 5 None) =
     Inr [\<lparr>category = ''trending'', priority = ''medium'',
           rec_title = ''Align with current trends'', data = NoData\<rparr>,
          \<lparr>category = ''profile'', priority = ''medium'',
           rec_title = ''Activate more platforms'', data = PlatformsData [''scopus'']\<rparr>,
          regular_updates]"
proof -
  have P: "get_papers_with_latest_citations (reconnect synced_store) = []"
    by (simp add: get_papers_with_latest_citations_def reconnect_def synced_store_def
        initialize_def sort_desc_def)
  have 1: "fst (emitted loads_example scopus_off [] (new_object synced_store) (Some ''profile''))
      = Inl AttributeError"
    by (simp add: emitted_def profile_recommendations_def new_object_def truthy_def Let_def)
  have 2: "fst (emitted loads_example scopus_off [] (connect (new_object synced_store))
        (Some ''profile'')) =
      Inr [\<lparr>category = ''profile'', priority = ''medium'',
            rec_title = ''Activate more platforms'', data = PlatformsData [''scopus'']\<rparr>,
           regular_updates]"
    by (simp add: emitted_def profile_recommendations_def new_object_def connect_def
        reconnect_def synced_store_def initialize_def scopus_off_def truthy_def Let_def)
  have 3: "fst (emitted loads_example scopus_off [] (new_object synced_store) None) =
      Inr [\<lparr>category = ''trending'', priority = ''medium'',
            rec_title = ''Align with current trends'', data = NoData\<rparr>,
           \<lparr>category = ''profile'', priority = ''medium'',
            rec_title = ''Activate more platforms'', data = PlatformsData [''scopus'']\<rparr>,
           regular_updates]"
    by (simp add: emitted_def profile_recommendations_def new_object_def connect_def
        visibility_recommendations_def collaboration_recommendations_def P
        trending_recommendations_def scopus_off_def truthy_def Let_def)
      (simp add: reconnect_def synced_store_def initialize_def)
  show ?thesis
    by (simp add: generate_recommendations_result 1 2 3 sort_desc_def priority_score_def
        py_slice_to_def regular_updates_def)
qed

end
